theory Spec2Isabelle
  imports Complex_Main
begin

section \<open>Data model\<close>

text \<open>
  A data frame is the list of its rows in index order.  Floating-point values are modelled
  as real numbers.  The price and volume cells of a row are finite numbers; a derived
  indicator cell is a \<open>real option\<close>, where \<open>None\<close> is the value NaN (a column that has
  not been computed yet reads as NaN as well).  A date is the day number of the calendar
  day, so that the difference of two dates is the number of days between them and the
  rendering \<open>%Y-%m-%d\<close> of a date, which is injective, is the date itself.
\<close>

record row =
  date :: int
  open_price :: real
  close :: real
  high :: real
  low :: real
  volume :: real
  ma5 :: "real option"
  ma10 :: "real option"
  ma20 :: "real option"
  ma30 :: "real option"
  ma60 :: "real option"
  rsi :: "real option"
  macd :: "real option"
  macd_signal :: "real option"
  macd_histogram :: "real option"
  bollinger_middle :: "real option"
  bollinger_upper :: "real option"
  bollinger_lower :: "real option"

type_synonym dataframe = "row list"

text \<open>
  The result of a floating-point division whose divisor may be zero: a finite number, an
  infinity or NaN.  No exception is raised by such a division on numpy values.
\<close>

datatype fl = Fin real | PInf | NInf | NaN

definition fdiv :: "real \<Rightarrow> real \<Rightarrow> fl" where
  "fdiv x y = (if y \<noteq> 0 then Fin (x / y)
               else if 0 < x then PInf else if x < 0 then NInf else NaN)"

fun fl_radd :: "real \<Rightarrow> fl \<Rightarrow> fl" where
  "fl_radd c (Fin x) = Fin (c + x)"
| "fl_radd c PInf = PInf"
| "fl_radd c NInf = NInf"
| "fl_radd c NaN = NaN"

fun fl_rdiv :: "real \<Rightarrow> fl \<Rightarrow> fl" where
  "fl_rdiv c (Fin x) = fdiv c x"
| "fl_rdiv c PInf = Fin 0"
| "fl_rdiv c NInf = Fin 0"
| "fl_rdiv c NaN = NaN"

fun fl_rsub :: "real \<Rightarrow> fl \<Rightarrow> fl" where
  "fl_rsub c (Fin x) = Fin (c - x)"
| "fl_rsub c PInf = NInf"
| "fl_rsub c NInf = PInf"
| "fl_rsub c NaN = NaN"

fun fl_abs :: "fl \<Rightarrow> fl" where
  "fl_abs (Fin x) = Fin \<bar>x\<bar>"
| "fl_abs PInf = PInf"
| "fl_abs NInf = PInf"
| "fl_abs NaN = NaN"

text \<open>Comparison of a float with a finite constant; every comparison with NaN is false.\<close>

fun fl_gt :: "fl \<Rightarrow> real \<Rightarrow> bool" where
  "fl_gt (Fin x) c = (c < x)"
| "fl_gt PInf c = True"
| "fl_gt NInf c = False"
| "fl_gt NaN c = False"

fun fl_lt :: "fl \<Rightarrow> real \<Rightarrow> bool" where
  "fl_lt (Fin x) c = (x < c)"
| "fl_lt PInf c = False"
| "fl_lt NInf c = True"
| "fl_lt NaN c = False"

text \<open>
  The value stored in an indicator cell.  The infinities do not arise for the RSI (lemma
  \<open>rsi_cell_cases\<close> below), so that the cell is NaN or a number.
\<close>

fun cell_of :: "fl \<Rightarrow> real option" where
  "cell_of (Fin x) = Some x"
| "cell_of PInf = None"
| "cell_of NInf = None"
| "cell_of NaN = None"

text \<open>Comparisons of two cells; a comparison with NaN is false.\<close>

definition cell_gt :: "real option \<Rightarrow> real option \<Rightarrow> bool" where
  "cell_gt a b = (case (a, b) of (Some x, Some y) \<Rightarrow> y < x | _ \<Rightarrow> False)"

definition cell_lt :: "real option \<Rightarrow> real option \<Rightarrow> bool" where
  "cell_lt a b = (case (a, b) of (Some x, Some y) \<Rightarrow> x < y | _ \<Rightarrow> False)"

definition cell_le :: "real option \<Rightarrow> real option \<Rightarrow> bool" where
  "cell_le a b = (case (a, b) of (Some x, Some y) \<Rightarrow> x \<le> y | _ \<Rightarrow> False)"

definition cell_ge :: "real option \<Rightarrow> real option \<Rightarrow> bool" where
  "cell_ge a b = (case (a, b) of (Some x, Some y) \<Rightarrow> y \<le> x | _ \<Rightarrow> False)"

definition notna :: "real option \<Rightarrow> bool" where
  "notna a = (a \<noteq> None)"

subsection \<open>Double-precision arithmetic\<close>






text \<open>
  The least real number that rounds to an infinity: the midpoint between the largest
  double and \<open>2 ^ 1024\<close>.  A float power of Python whose result is that large raises
  \<open>OverflowError\<close>.
\<close>

definition double_overflow :: real where
  "double_overflow = 2 ^ 1024 - 2 ^ 970"

section \<open>Indicator engine\<close>

text \<open>
  \<open>Series.rolling(window=w).mean()\<close>: NaN on the first \<open>w - 1\<close> indices, then the mean
  of the trailing \<open>w\<close> values.
\<close>

definition rolling_mean :: "nat \<Rightarrow> real list \<Rightarrow> real option list" where
  "rolling_mean w xs =
     map (\<lambda>i. if i + 1 < w then None
               else Some (sum_list (take w (drop (i + 1 - w) xs)) / real w))
       [0..<length xs]"

text \<open>The square root of numpy, on the non-negative numbers where it is used.\<close>

definition np_sqrt :: "real \<Rightarrow> real" where
  [code del]: "np_sqrt x = sqrt x"

text \<open>\<open>Series.rolling(window=w).std()\<close>: the sample standard deviation (ddof = 1).\<close>

definition rolling_std :: "nat \<Rightarrow> real list \<Rightarrow> real option list" where
  "rolling_std w xs =
     map (\<lambda>i. if i + 1 < w then None
               else (let ys = take w (drop (i + 1 - w) xs);
                         m = sum_list ys / real w
                     in Some (np_sqrt (sum_list (map (\<lambda>y. (y - m)\<^sup>2) ys) / (real w - 1)))))
       [0..<length xs]"

text \<open>\<open>Series.diff()\<close>: NaN at index 0, then the difference to the previous value.\<close>

definition diff :: "real list \<Rightarrow> real option list" where
  "diff xs = map (\<lambda>i. if i = 0 then None else Some (xs ! i - xs ! (i - 1))) [0..<length xs]"

text \<open>
  \<open>delta.where(delta > 0, 0)\<close> and \<open>-delta.where(delta < 0, 0)\<close>: a value is kept where
  the condition holds and replaced by 0 elsewhere, also where it is NaN.
\<close>

definition gain_of :: "real option \<Rightarrow> real" where
  "gain_of d = (case d of Some x \<Rightarrow> (if 0 < x then x else 0) | None \<Rightarrow> 0)"

definition loss_of :: "real option \<Rightarrow> real" where
  "loss_of d = - (case d of Some x \<Rightarrow> (if x < 0 then x else 0) | None \<Rightarrow> 0)"

text \<open>\<open>rs = gain / loss\<close> and \<open>100 - (100 / (1 + rs))\<close>, cell by cell.\<close>

definition rs_of :: "real option \<Rightarrow> real option \<Rightarrow> fl" where
  "rs_of g l = (case (g, l) of (Some x, Some y) \<Rightarrow> fdiv x y | _ \<Rightarrow> NaN)"

definition rsi_of_rs :: "fl \<Rightarrow> real option" where
  "rsi_of_rs rs = cell_of (fl_rsub 100 (fl_rdiv 100 (fl_radd 1 rs)))"

text \<open>
  \<open>Series.ewm(span=s, adjust=False).mean()\<close>: seeded with the first value, then
  \<open>y\<^sub>t = (1 - \<alpha>) * y\<^sub>t\<^sub>-\<^sub>1 + \<alpha> * x\<^sub>t\<close> with \<open>\<alpha> = 2 / (s + 1)\<close>.
\<close>

fun ewm_from :: "real \<Rightarrow> real \<Rightarrow> real list \<Rightarrow> real list" where
  "ewm_from \<alpha> y [] = []"
| "ewm_from \<alpha> y (x # xs) = ((1 - \<alpha>) * y + \<alpha> * x) # ewm_from \<alpha> ((1 - \<alpha>) * y + \<alpha> * x) xs"

fun ewm_mean :: "real \<Rightarrow> real list \<Rightarrow> real list" where
  "ewm_mean sp [] = []"
| "ewm_mean sp (x # xs) = x # ewm_from (2 / (sp + 1)) x xs"

text \<open>The RSI column that \<open>calculate_technical_indicators\<close> computes from the closes.\<close>

definition rsi_column :: "real list \<Rightarrow> real option list" where
  "rsi_column closes =
     (let delta = diff closes;
          gain = rolling_mean 14 (map gain_of delta);
          loss = rolling_mean 14 (map loss_of delta);
          rs = map2 rs_of gain loss
      in map rsi_of_rs rs)"

text \<open>Column arithmetic; an operation on NaN gives NaN.\<close>

definition col_sub :: "real option list \<Rightarrow> real option list \<Rightarrow> real option list" where
  "col_sub xs ys =
     map2 (\<lambda>a b. case (a, b) of (Some x, Some y) \<Rightarrow> Some (x - y) | _ \<Rightarrow> None) xs ys"

definition col_add :: "real option list \<Rightarrow> real option list \<Rightarrow> real option list" where
  "col_add xs ys =
     map2 (\<lambda>a b. case (a, b) of (Some x, Some y) \<Rightarrow> Some (x + y) | _ \<Rightarrow> None) xs ys"

definition col_scale :: "real option list \<Rightarrow> real \<Rightarrow> real option list" where
  "col_scale xs c = map (map_option (\<lambda>x. x * c)) xs"

text \<open>
  The assignment \<open>df[c] = values\<close> of a column, row by row.  The argument \<open>upd\<close> is the
  update function of the field \<open>c\<close> of a row.
\<close>

definition assign :: "((real option \<Rightarrow> real option) \<Rightarrow> row \<Rightarrow> row) \<Rightarrow> real option list
    \<Rightarrow> dataframe \<Rightarrow> dataframe" where
  "assign upd col df = map2 (\<lambda>r v. upd (\<lambda>_. v) r) df col"

text \<open>
  \<open>calculate_technical_indicators\<close> on the rows of the copied frame, as the sequence of
  its column assignments.  The MACD columns are exponential means of the closes and are
  never NaN.
\<close>

definition calculate_technical_indicators :: "dataframe \<Rightarrow> dataframe" where
  "calculate_technical_indicators df0 =
     (let df = df0;
          df = assign ma5_update (rolling_mean 5 (map close df)) df;
          df = assign ma10_update (rolling_mean 10 (map close df)) df;
          df = assign ma20_update (rolling_mean 20 (map close df)) df;
          df = assign ma30_update (rolling_mean 30 (map close df)) df;
          df = assign ma60_update (rolling_mean 60 (map close df)) df;
          df = assign rsi_update (rsi_column (map close df)) df;
          exp1 = ewm_mean 12 (map close df);
          exp2 = ewm_mean 26 (map close df);
          df = assign macd_update (map Some (map2 (\<lambda>a b. a - b) exp1 exp2)) df;
          df = assign macd_signal_update (map Some (ewm_mean 9 (map the (map macd df)))) df;
          df = assign macd_histogram_update (col_sub (map macd df) (map macd_signal df)) df;
          df = assign bollinger_middle_update (rolling_mean 20 (map close df)) df;
          std = rolling_std 20 (map close df);
          df = assign bollinger_upper_update (col_add (map bollinger_middle df) (col_scale std 2)) df;
          df = assign bollinger_lower_update (col_sub (map bollinger_middle df) (col_scale std 2)) df
      in df)"

subsection \<open>The indicator engine on the store of frames\<close>

text \<open>
  A data frame is a mutable object.  The store is the list of the frames that exist, and a
  reference is an index into it.  \<open>df.copy()\<close> allocates a new frame with the contents of
  the old one; \<open>df[c] = values\<close> replaces the column \<open>c\<close> of the frame that \<open>df\<close>
  refers to, and \<open>df[c]\<close> reads a column of it.
\<close>

type_synonym store = "dataframe list"

definition df_copy :: "store \<Rightarrow> nat \<Rightarrow> store \<times> nat" where
  "df_copy h r = (h @ [h ! r], length h)"

definition setitem :: "store \<Rightarrow> nat \<Rightarrow> ((real option \<Rightarrow> real option) \<Rightarrow> row \<Rightarrow> row)
    \<Rightarrow> real option list \<Rightarrow> store" where
  "setitem h r upd col = h[r := assign upd col (h ! r)]"

definition getitem :: "store \<Rightarrow> nat \<Rightarrow> (row \<Rightarrow> 'a) \<Rightarrow> 'a list" where
  "getitem h r f = map f (h ! r)"

text \<open>
  \<open>calculate_technical_indicators\<close> as the method is written: the parameter \<open>df\<close> is
  rebound to a copy, every assignment writes to the copy, and the copy is returned.
\<close>

definition calculate_technical_indicators_st :: "store \<Rightarrow> nat \<Rightarrow> store \<times> nat" where
  "calculate_technical_indicators_st h0 df0 =
     (let (h, df) = df_copy h0 df0;
          h = setitem h df ma5_update (rolling_mean 5 (getitem h df close));
          h = setitem h df ma10_update (rolling_mean 10 (getitem h df close));
          h = setitem h df ma20_update (rolling_mean 20 (getitem h df close));
          h = setitem h df ma30_update (rolling_mean 30 (getitem h df close));
          h = setitem h df ma60_update (rolling_mean 60 (getitem h df close));
          h = setitem h df rsi_update (rsi_column (getitem h df close));
          exp1 = ewm_mean 12 (getitem h df close);
          exp2 = ewm_mean 26 (getitem h df close);
          h = setitem h df macd_update (map Some (map2 (\<lambda>a b. a - b) exp1 exp2));
          h = setitem h df macd_signal_update
                (map Some (ewm_mean 9 (map the (getitem h df macd))));
          h = setitem h df macd_histogram_update
                (col_sub (getitem h df macd) (getitem h df macd_signal));
          h = setitem h df bollinger_middle_update (rolling_mean 20 (getitem h df close));
          std = rolling_std 20 (getitem h df close);
          h = setitem h df bollinger_upper_update
                (col_add (getitem h df bollinger_middle) (col_scale std 2));
          h = setitem h df bollinger_lower_update
                (col_sub (getitem h df bollinger_middle) (col_scale std 2))
      in (h, df))"

section \<open>Signal detector: RSI signal strength\<close>

text \<open>
  Floating-point values of the program are modelled as real numbers; the value NaN of a
  data-frame cell is \<open>None\<close> of type \<open>real option\<close>.  The argument \<open>signal_type\<close>
  of \<open>_calculate_rsi_signal_strength\<close> is the Python string.
\<close>

definition calculate_rsi_signal_strength :: "real \<Rightarrow> string \<Rightarrow> real" where
  "calculate_rsi_signal_strength rsi_value signal_type =
     (if signal_type = ''buy'' then
        (if rsi_value < 20 then 0.9
         else if rsi_value < 25 then 0.8
         else if rsi_value < 30 then 0.6 + (30 - rsi_value) / 10 * 0.2
         else 0.5)
      else if signal_type = ''sell'' then
        (if rsi_value > 80 then 0.9
         else if rsi_value > 75 then 0.8
         else if rsi_value > 70 then 0.6 + (rsi_value - 70) / 10 * 0.2
         else 0.5)
      else 0.5)"

section \<open>Signal detector\<close>

text \<open>
  The reason text of a signal is built from fixed phrases; it is modelled by the choice of
  the phrases and the number that is formatted into it, from which the text is determined.
  \<open>Golden_cross v\<close> and \<open>Death_cross v\<close> are the texts of the moving-average crosses, with
  the volume phrase appended when \<open>v\<close> holds; \<open>RSI_oversold x d\<close> and
  \<open>RSI_overbought x d\<close> format the RSI \<open>x\<close> and append the divergence phrase when \<open>d\<close>
  holds; \<open>MACD_cross_up h\<close> and \<open>MACD_cross_down h\<close> append the histogram phrase when
  \<open>h\<close> holds; \<open>Hold_reason ps\<close> lists the phrases \<open>ps\<close> of the hold signal.
\<close>

datatype hold_part = MA_converged | Price_above_MA | Price_below_MA | RSI_neutral | Trend_conflict

datatype reason =
    Golden_cross bool
  | Death_cross bool
  | RSI_oversold real bool
  | RSI_overbought real bool
  | MACD_cross_up bool
  | MACD_cross_down bool
  | Hold_reason "hold_part list"

datatype indicator = MA5 | MA30 | RSI | MACD | Composite

record signal =
  signal_type :: string
  signal_strength :: real
  signal_reason :: reason
  signal_date :: int
  indicators_used :: "indicator list"

definition mean :: "real list \<Rightarrow> real" where
  "mean xs = sum_list xs / real (length xs)"

text \<open>
  \<open>_calculate_ma_cross_strength\<close>.  \<open>df.iloc[-window-1:-1]\<close> is the last \<open>window + 1\<close>
  rows without the last one.
\<close>

definition calculate_ma_cross_strength :: "dataframe \<Rightarrow> nat \<Rightarrow> real" where
  "calculate_ma_cross_strength df window =
     (if length df < window + 1 then 0.5
      else
        let latest = last df;
            recent = butlast (drop (length df - (window + 1)) df);
            strength = 0.5;
            strength =
              (if recent \<noteq> [] then
                 (let avg_volume = mean (map volume recent)
                  in if volume latest > avg_volume * 1.2 then strength + 0.15
                     else if volume latest > avg_volume * 1.1 then strength + 0.1
                     else strength)
               else strength);
            strength =
              (if length recent \<ge> 3 then
                 (let price_trend = fdiv (close latest - close (hd recent)) (close (hd recent))
                  in if fl_gt (fl_abs price_trend) 0.02 then strength + 0.1 else strength)
               else strength);
            strength =
              (if notna (ma5 latest) \<and> notna (ma30 latest) then
                 (let separation =
                        fdiv \<bar>the (ma5 latest) - the (ma30 latest)\<bar> (the (ma30 latest))
                  in if fl_gt separation 0.05 then strength + 0.1
                     else if fl_gt separation 0.03 then strength + 0.05
                     else strength)
               else strength)
        in min strength 1.0)"

definition cell_minus :: "real option \<Rightarrow> real option \<Rightarrow> real option" where
  "cell_minus a b = (case (a, b) of (Some x, Some y) \<Rightarrow> Some (x - y) | _ \<Rightarrow> None)"

text \<open>\<open>_check_rsi_divergence\<close>; \<open>df.iloc[-window-1:]\<close> is the last \<open>window + 1\<close> rows.\<close>

definition check_rsi_divergence :: "dataframe \<Rightarrow> nat \<Rightarrow> bool \<times> string" where
  "check_rsi_divergence df window =
     (if length df < window + 1 then (False, [])
      else
        let recent = drop (length df - (window + 1)) df;
            price_change = fdiv (close (last recent) - close (hd recent)) (close (hd recent));
            rsi_change = cell_minus (rsi (last recent)) (rsi (hd recent))
        in if fl_lt price_change (- 0.02) \<and> cell_gt rsi_change (Some 5) then (True, ''bullish'')
           else if fl_gt price_change 0.02 \<and> cell_lt rsi_change (Some (- 5))
           then (True, ''bearish'')
           else (False, []))"

subsection \<open>The latest-day detector \<open>detect_trading_signals\<close>\<close>

definition latest_of :: "dataframe \<Rightarrow> row" where
  "latest_of df = last df"

definition prev_of :: "dataframe \<Rightarrow> row" where
  "prev_of df = (if length df > 1 then df ! (length df - 2) else last df)"

definition recent_window_of :: "dataframe \<Rightarrow> nat \<Rightarrow> dataframe" where
  "recent_window_of df window =
     (if length df \<ge> window + 1 then drop (length df - (window + 1)) df else df)"

text \<open>The volume check that extends the reason text of a moving-average cross.\<close>

definition volume_confirmed :: "dataframe \<Rightarrow> nat \<Rightarrow> bool" where
  "volume_confirmed df window =
     (let latest = latest_of df; rw = recent_window_of df window
      in if length rw > 0 then
           (let avg_volume = (if length rw > 1 then mean (map volume (butlast rw))
                              else volume latest)
            in volume latest > avg_volume * 1.2)
         else False)"

text \<open>Rule 1, the golden cross.\<close>

definition dts_golden_cross :: "dataframe \<Rightarrow> nat \<Rightarrow> signal list" where
  "dts_golden_cross df window =
     (let latest = latest_of df; prev = prev_of df
      in if notna (ma5 latest) \<and> notna (ma30 latest) then
           (if cell_gt (ma5 latest) (ma30 latest) \<and> cell_le (ma5 prev) (ma30 prev) then
              [\<lparr> signal_type = ''buy'',
                 signal_strength = (0.6 + calculate_ma_cross_strength df window) / 2,
                 signal_reason = Golden_cross (volume_confirmed df window),
                 signal_date = date latest,
                 indicators_used = [MA5, MA30] \<rparr>]
            else [])
         else [])"

text \<open>Rule 2, the death cross.\<close>

definition dts_death_cross :: "dataframe \<Rightarrow> nat \<Rightarrow> signal list" where
  "dts_death_cross df window =
     (let latest = latest_of df; prev = prev_of df
      in if notna (ma5 latest) \<and> notna (ma30 latest) then
           (if cell_lt (ma5 latest) (ma30 latest) \<and> cell_ge (ma5 prev) (ma30 prev) then
              [\<lparr> signal_type = ''sell'',
                 signal_strength = (0.6 + calculate_ma_cross_strength df window) / 2,
                 signal_reason = Death_cross (volume_confirmed df window),
                 signal_date = date latest,
                 indicators_used = [MA5, MA30] \<rparr>]
            else [])
         else [])"

text \<open>Rule 3, RSI oversold and overbought, with the divergence boost.\<close>

definition dts_rsi :: "dataframe \<Rightarrow> nat \<Rightarrow> signal list" where
  "dts_rsi df window =
     (let latest = latest_of df
      in if notna (rsi latest) then
           (let (has_divergence, div_type) = check_rsi_divergence df window;
                r = the (rsi latest)
            in if r < 30 then
                 (let strength = calculate_rsi_signal_strength r ''buy'';
                      strength = (if has_divergence \<and> div_type = ''bullish''
                                  then min (strength + 0.15) 1.0 else strength)
                  in [\<lparr> signal_type = ''buy'',
                         signal_strength = strength,
                         signal_reason = RSI_oversold r has_divergence,
                         signal_date = date latest,
                         indicators_used = [RSI] \<rparr>])
               else if r > 70 then
                 (let strength = calculate_rsi_signal_strength r ''sell'';
                      strength = (if has_divergence \<and> div_type = ''bearish''
                                  then min (strength + 0.15) 1.0 else strength)
                  in [\<lparr> signal_type = ''sell'',
                         signal_strength = strength,
                         signal_reason = RSI_overbought r has_divergence,
                         signal_date = date latest,
                         indicators_used = [RSI] \<rparr>])
               else [])
         else [])"

text \<open>
  Rule 4, the MACD cross with the histogram confirmation.  The strength is the exact sum of
  its decimal parts here; the doubles of the program round every addition
  (\<open>0.6 + 0.1 + 0.1\<close> is \<open>0.7999999999999999\<close> there), so that the comparison
  of such a strength with a threshold of the same value can come out differently.
\<close>

definition dts_macd :: "dataframe \<Rightarrow> nat \<Rightarrow> signal list" where
  "dts_macd df window =
     (let latest = latest_of df; prev = prev_of df
      in if notna (macd latest) \<and> notna (macd_signal latest) then
           (if cell_gt (macd latest) (macd_signal latest)
                \<and> cell_le (macd prev) (macd_signal prev) then
              (let strength = 0.6;
                   strength =
                     (if notna (macd_histogram latest) then
                        (let strength = (if cell_gt (macd_histogram latest) (Some 0)
                                         then strength + 0.1 else strength)
                         in if length df > 1 \<and> notna (macd_histogram prev) then
                              (if cell_gt (macd_histogram latest) (macd_histogram prev)
                               then strength + 0.1 else strength)
                            else strength)
                      else strength)
               in [\<lparr> signal_type = ''buy'',
                      signal_strength = min strength 1.0,
                      signal_reason = MACD_cross_up (notna (macd_histogram latest)
                                        \<and> cell_gt (macd_histogram latest) (Some 0)),
                      signal_date = date latest,
                      indicators_used = [MACD] \<rparr>])
            else if cell_lt (macd latest) (macd_signal latest)
                \<and> cell_ge (macd prev) (macd_signal prev) then
              (let strength = 0.6;
                   strength =
                     (if notna (macd_histogram latest) then
                        (let strength = (if cell_lt (macd_histogram latest) (Some 0)
                                         then strength + 0.1 else strength)
                         in if length df > 1 \<and> notna (macd_histogram prev) then
                              (if cell_lt (macd_histogram latest) (macd_histogram prev)
                               then strength + 0.1 else strength)
                            else strength)
                      else strength)
               in [\<lparr> signal_type = ''sell'',
                      signal_strength = min strength 1.0,
                      signal_reason = MACD_cross_down (notna (macd_histogram latest)
                                        \<and> cell_lt (macd_histogram latest) (Some 0)),
                      signal_date = date latest,
                      indicators_used = [MACD] \<rparr>])
            else [])
         else [])"

text \<open>
  Rule 5, the hold signal that is added when no rule has fired.  The pair carries
  \<open>hold_strength\<close> and \<open>hold_reason_parts\<close>; \<open>df['close'].iloc[-5]\<close> and
  \<open>df['close'].iloc[-20]\<close> are read only when the frame has at least 20 rows.
\<close>

definition dts_hold :: "dataframe \<Rightarrow> signal" where
  "dts_hold df =
     (let latest = latest_of df;
          st = (0.5, []);
          st =
            (if notna (ma5 latest) \<and> notna (ma30 latest) then
               (let separation =
                      fdiv \<bar>the (ma5 latest) - the (ma30 latest)\<bar> (the (ma30 latest))
                in if fl_lt separation 0.02 then (0.6, snd st @ [MA_converged])
                   else if cell_gt (ma5 latest) (ma30 latest)
                   then (fst st, snd st @ [Price_above_MA])
                   else (fst st, snd st @ [Price_below_MA]))
             else st);
          st =
            (if notna (rsi latest) then
               (if 30 \<le> the (rsi latest) \<and> the (rsi latest) \<le> 70
                then (0.55, snd st @ [RSI_neutral]) else st)
             else st);
          st =
            (if length df \<ge> 20 then
               (let short_up = (close (last df) > close (df ! (length df - 5)));
                    medium_up = (close (last df) > close (df ! (length df - 20)))
                in if short_up \<noteq> medium_up then (0.6, snd st @ [Trend_conflict]) else st)
             else st)
      in \<lparr> signal_type = ''hold'',
           signal_strength = fst st,
           signal_reason = Hold_reason (snd st),
           signal_date = date latest,
           indicators_used = [Composite] \<rparr>)"

definition detect_trading_signals :: "dataframe \<Rightarrow> nat \<Rightarrow> signal list" where
  "detect_trading_signals df window =
     (if length df < 30 then []
      else
        let signals = dts_golden_cross df window @ dts_death_cross df window
                      @ dts_rsi df window @ dts_macd df window
        in if signals = [] then signals @ [dts_hold df] else signals)"

subsection \<open>The full-history scan \<open>detect_trading_signals_for_backtest\<close>\<close>

text \<open>
  The body of the loop at index \<open>i\<close>, rule by rule.  \<open>df.iloc[:i+1]\<close> is \<open>take (i + 1) df\<close>
  and \<open>df.iloc[max(0, i-window):i+1]\<close> is \<open>drop (i - window) (take (i + 1) df)\<close>.
\<close>

definition bt_prev_row :: "dataframe \<Rightarrow> nat \<Rightarrow> row" where
  "bt_prev_row df i = (if i > 0 then df ! (i - 1) else df ! i)"

definition bt_recent_window :: "dataframe \<Rightarrow> nat \<Rightarrow> nat \<Rightarrow> dataframe" where
  "bt_recent_window df window i = drop (i - window) (take (i + 1) df)"

definition bt_volume_confirmed :: "dataframe \<Rightarrow> nat \<Rightarrow> nat \<Rightarrow> bool" where
  "bt_volume_confirmed df window i =
     (let rw = bt_recent_window df window i
      in if length rw > 1 then volume (df ! i) > mean (map volume (butlast rw)) * 1.2
         else False)"

definition dtsb_ma_cross :: "dataframe \<Rightarrow> nat \<Rightarrow> nat \<Rightarrow> signal list" where
  "dtsb_ma_cross df window i =
     (let current_row = df ! i; prev_row = bt_prev_row df i
      in if notna (ma5 current_row) \<and> notna (ma30 current_row) then
           (if notna (ma5 prev_row) \<and> notna (ma30 prev_row) then
              (if cell_gt (ma5 current_row) (ma30 current_row)
                   \<and> cell_le (ma5 prev_row) (ma30 prev_row) then
                 [\<lparr> signal_type = ''buy'',
                    signal_strength =
                      (0.6 + calculate_ma_cross_strength (take (i + 1) df) window) / 2,
                    signal_reason = Golden_cross (bt_volume_confirmed df window i),
                    signal_date = date current_row,
                    indicators_used = [MA5, MA30] \<rparr>]
               else if cell_lt (ma5 current_row) (ma30 current_row)
                   \<and> cell_ge (ma5 prev_row) (ma30 prev_row) then
                 [\<lparr> signal_type = ''sell'',
                    signal_strength =
                      (0.6 + calculate_ma_cross_strength (take (i + 1) df) window) / 2,
                    signal_reason = Death_cross (bt_volume_confirmed df window i),
                    signal_date = date current_row,
                    indicators_used = [MA5, MA30] \<rparr>]
               else [])
            else [])
         else [])"

definition dtsb_rsi :: "dataframe \<Rightarrow> nat \<Rightarrow> nat \<Rightarrow> signal list" where
  "dtsb_rsi df window i =
     (let current_row = df ! i
      in if notna (rsi current_row) then
           (let (has_divergence, div_type) = check_rsi_divergence (take (i + 1) df) window;
                r = the (rsi current_row)
            in if r < 30 then
                 (let strength = calculate_rsi_signal_strength r ''buy'';
                      strength = (if has_divergence \<and> div_type = ''bullish''
                                  then min (strength + 0.15) 1.0 else strength)
                  in [\<lparr> signal_type = ''buy'',
                         signal_strength = strength,
                         signal_reason = RSI_oversold r has_divergence,
                         signal_date = date current_row,
                         indicators_used = [RSI] \<rparr>])
               else if r > 70 then
                 (let strength = calculate_rsi_signal_strength r ''sell'';
                      strength = (if has_divergence \<and> div_type = ''bearish''
                                  then min (strength + 0.15) 1.0 else strength)
                  in [\<lparr> signal_type = ''sell'',
                         signal_strength = strength,
                         signal_reason = RSI_overbought r has_divergence,
                         signal_date = date current_row,
                         indicators_used = [RSI] \<rparr>])
               else [])
         else [])"

definition dtsb_macd :: "dataframe \<Rightarrow> nat \<Rightarrow> signal list" where
  "dtsb_macd df i =
     (let current_row = df ! i; prev_row = bt_prev_row df i
      in if notna (macd current_row) \<and> notna (macd_signal current_row) then
           (if notna (macd prev_row) \<and> notna (macd_signal prev_row) then
              (if cell_gt (macd current_row) (macd_signal current_row)
                   \<and> cell_le (macd prev_row) (macd_signal prev_row) then
                 (let strength = 0.6;
                      strength =
                        (if notna (macd_histogram current_row) then
                           (let strength = (if cell_gt (macd_histogram current_row) (Some 0)
                                            then strength + 0.1 else strength)
                            in if notna (macd_histogram prev_row) then
                                 (if cell_gt (macd_histogram current_row)
                                       (macd_histogram prev_row)
                                  then strength + 0.1 else strength)
                               else strength)
                         else strength)
                  in [\<lparr> signal_type = ''buy'',
                         signal_strength = min strength 1.0,
                         signal_reason = MACD_cross_up (notna (macd_histogram current_row)
                                           \<and> cell_gt (macd_histogram current_row) (Some 0)),
                         signal_date = date current_row,
                         indicators_used = [MACD] \<rparr>])
               else if cell_lt (macd current_row) (macd_signal current_row)
                   \<and> cell_ge (macd prev_row) (macd_signal prev_row) then
                 (let strength = 0.6;
                      strength =
                        (if notna (macd_histogram current_row) then
                           (let strength = (if cell_lt (macd_histogram current_row) (Some 0)
                                            then strength + 0.1 else strength)
                            in if notna (macd_histogram prev_row) then
                                 (if cell_lt (macd_histogram current_row)
                                       (macd_histogram prev_row)
                                  then strength + 0.1 else strength)
                               else strength)
                         else strength)
                  in [\<lparr> signal_type = ''sell'',
                         signal_strength = min strength 1.0,
                         signal_reason = MACD_cross_down (notna (macd_histogram current_row)
                                           \<and> cell_lt (macd_histogram current_row) (Some 0)),
                         signal_date = date current_row,
                         indicators_used = [MACD] \<rparr>])
               else [])
            else [])
         else [])"

definition day_signals :: "dataframe \<Rightarrow> nat \<Rightarrow> nat \<Rightarrow> signal list" where
  "day_signals df window i = dtsb_ma_cross df window i @ dtsb_rsi df window i @ dtsb_macd df i"

definition detect_trading_signals_for_backtest :: "dataframe \<Rightarrow> nat \<Rightarrow> signal list" where
  "detect_trading_signals_for_backtest df window =
     (if length df < 30 then []
      else concat (map (day_signals df window) [30..<length df]))"

section \<open>Strategy backtester\<close>

subsection \<open>Requests, positions, trades and metrics\<close>

datatype py_error = ValueError | ValidationError | OverflowError

record backtest_request =
  stock_code :: string
  start_date :: int
  end_date :: int
  initial_capital :: real
  strategy_type :: string
  shares_per_trade :: int
  req_hold_days :: "int option"
  min_signal_strength :: real
  signal_types :: "string list option"

text \<open>
  The open position, a dictionary in the source.  The field \<open>pos_label\<close> is the entry
  \<open>'signal_type'\<close> that only the signal-based strategy stores (the reason of the buy
  signal); the moving-average strategy stores none and uses the unit type.
\<close>

record 'a position =
  pos_buy_date :: int
  pos_buy_price :: real
  pos_shares :: int
  pos_label :: 'a

text \<open>
  The text in the field \<open>signal_type\<close> of a trade: the reason of the entry signal, alone
  or followed by \<open>(hold_days)\<close> or \<open>(end)\<close>, or one of the three fixed texts of the
  moving-average strategy.
\<close>

datatype trade_label =
    Entry_reason reason
  | Entry_reason_hold_days reason
  | Entry_reason_end reason
  | MA_death_cross
  | MA_golden_hold_expired
  | MA_golden_backtest_end

record backtest_trade =
  trade_id :: nat
  buy_date :: int
  buy_price :: real
  sell_date :: int
  sell_price :: real
  shares :: int
  profit :: real
  return_rate :: real
  trade_signal_type :: trade_label
  hold_days :: int

record backtest_metrics =
  metrics_initial_capital :: real
  final_capital :: real
  total_return :: real
  total_return_rate :: real
  annualized_return_rate :: "real option"
  total_trades :: nat
  successful_trades :: nat
  failed_trades :: int
  win_rate :: real
  average_profit :: real
  max_profit :: real
  max_loss :: real
  max_drawdown :: real
  sharpe_ratio :: "fl option"
  profit_factor :: "real option"

record equity_point =
  ep_date :: int
  ep_capital :: real

record backtest_result =
  res_stock_code :: string
  res_backtest_period :: "int \<times> int"
  res_strategy_type :: string
  res_metrics :: backtest_metrics
  res_trades :: "backtest_trade list"
  res_equity_curve :: "equity_point list option"

subsection \<open>Equity curve\<close>

text \<open>
  \<open>_calculate_equity_curve\<close>.  The dictionary \<open>trades_by_date\<close> maps a date to the
  pair of its \<open>'buy'\<close> and \<open>'sell'\<close> lists; \<open>pd.date_range(start, end, freq='D')\<close> is
  the list \<open>[start..end]\<close> of the days from \<open>start\<close> to \<open>end\<close>.
\<close>

type_synonym trades_by_date = "int \<rightharpoonup> (backtest_trade list \<times> backtest_trade list)"

definition group_trade :: "trades_by_date \<Rightarrow> backtest_trade \<Rightarrow> trades_by_date" where
  "group_trade m t =
     (let m = (if buy_date t \<notin> dom m then m(buy_date t \<mapsto> ([], [])) else m);
          m = (if sell_date t \<notin> dom m then m(sell_date t \<mapsto> ([], [])) else m);
          m = m(buy_date t \<mapsto> (fst (the (m (buy_date t))) @ [t], snd (the (m (buy_date t)))));
          m = m(sell_date t \<mapsto> (fst (the (m (sell_date t))), snd (the (m (sell_date t))) @ [t]))
      in m)"

definition apply_buys :: "real \<Rightarrow> backtest_trade list \<Rightarrow> real" where
  "apply_buys c ts = foldl (\<lambda>c t. c - buy_price t * real_of_int (shares t)) c ts"

definition apply_sells :: "real \<Rightarrow> backtest_trade list \<Rightarrow> real" where
  "apply_sells c ts = foldl (\<lambda>c t. c + sell_price t * real_of_int (shares t)) c ts"

definition equity_day :: "trades_by_date \<Rightarrow> real \<times> equity_point list \<Rightarrow> int
    \<Rightarrow> real \<times> equity_point list" where
  "equity_day m acc d =
     (let current_capital = fst acc;
          current_capital =
            (case m d of
               Some (buys, sells) \<Rightarrow> apply_sells (apply_buys current_capital buys) sells
             | None \<Rightarrow> current_capital)
      in (current_capital, snd acc @ [\<lparr> ep_date = d, ep_capital = current_capital \<rparr>]))"

definition calculate_equity_curve :: "backtest_trade list \<Rightarrow> real \<Rightarrow> int \<Rightarrow> int
    \<Rightarrow> equity_point list" where
  "calculate_equity_curve trades initial start end =
     (let trades_by_date = foldl group_trade Map.empty trades
      in snd (foldl (equity_day trades_by_date) (initial, []) [start..end]))"

subsection \<open>Metrics\<close>

text \<open>\<open>_calculate_max_drawdown\<close>; the pair carries \<open>peak\<close> and \<open>max_dd\<close>.\<close>

definition drawdown_step :: "real \<times> real \<Rightarrow> real \<Rightarrow> real \<times> real" where
  "drawdown_step acc capital =
     (let peak = (if capital > fst acc then capital else fst acc);
          dd = (if peak > 0 then (peak - capital) / peak else 0)
      in (peak, if dd > snd acc then dd else snd acc))"

definition calculate_max_drawdown :: "equity_point list \<Rightarrow> real" where
  "calculate_max_drawdown equity_curve =
     (if length equity_curve < 2 then 0
      else let capitals = map ep_capital equity_curve
           in snd (foldl drawdown_step (hd capitals, 0) capitals) * 100)"

text \<open>\<open>np.std\<close>, the population standard deviation.\<close>

definition np_std :: "real list \<Rightarrow> real" where
  "np_std xs = np_sqrt (mean (map (\<lambda>x. (x - mean xs)\<^sup>2) xs))"

text \<open>
  \<open>_calculate_sharpe_ratio\<close>.  The result is \<open>None\<close>, or a float that is NaN when the
  average hold duration is not positive: the division by a zero duration gives an infinity
  and the quotient of the two annualized values is then NaN, and the square root of a
  negative number is NaN.
\<close>

definition calculate_sharpe_ratio :: "backtest_trade list \<Rightarrow> real \<Rightarrow> fl option" where
  "calculate_sharpe_ratio trades risk_free_rate =
     (if length trades < 2 then None
      else
        let returns = map return_rate trades;
            mean_return = mean returns;
            std_return = np_std returns
        in if std_return = 0 then None
           else
             let avg_hold_days = mean (map (\<lambda>t. real_of_int (hold_days t)) trades)
             in if avg_hold_days \<le> 0 then Some NaN
                else
                  let annualized_return = mean_return * (252 / avg_hold_days);
                      annualized_std = std_return * np_sqrt (252 / avg_hold_days)
                  in if annualized_std = 0 then None
                     else Some (Fin ((annualized_return - risk_free_rate) / annualized_std)))"

definition empty_metrics :: "real \<Rightarrow> backtest_metrics" where
  "empty_metrics ic =
     \<lparr> metrics_initial_capital = ic,
       final_capital = ic,
       total_return = 0,
       total_return_rate = 0,
       annualized_return_rate = None,
       total_trades = 0,
       successful_trades = 0,
       failed_trades = 0,
       win_rate = 0,
       average_profit = 0,
       max_profit = 0,
       max_loss = 0,
       max_drawdown = 0,
       sharpe_ratio = None,
       profit_factor = None \<rparr>"

text \<open>
  \<open>_calculate_metrics\<close>.  The power \<open>(final_capital / initial_capital) ** (1 / years)\<close>
  of a negative ratio with a fractional exponent is a complex number in Python, which the
  field \<open>annualized_return_rate\<close> of \<open>BacktestMetrics\<close> rejects: the constructor
  raises.  The exponent is fractional whenever \<open>days > 0\<close>, and \<open>1\<close> otherwise.  A power
  that is too large for a double raises \<open>OverflowError\<close>.  The sum of the profits and the
  final capital are the exact values here; the program rounds every addition.
\<close>

definition calculate_metrics :: "backtest_trade list \<Rightarrow> real \<Rightarrow> equity_point list \<Rightarrow> int \<Rightarrow> int
    \<Rightarrow> py_error + backtest_metrics" where
  "calculate_metrics trades ic equity_curve start end =
     (if trades = [] then Inr (empty_metrics ic)
      else
        let total_profit = sum_list (map profit trades);
            final = ic + total_profit;
            total_ret = final - ic;
            total_ret_rate = (if ic > 0 then (total_ret / ic) * 100 else 0);
            days = end - start;
            years = (if days > 0 then real_of_int days / 365.25 else 1);
            n = length trades;
            successful = length (filter (\<lambda>t. profit t > 0) trades);
            profits = map profit trades;
            total_profit_amount = sum_list (filter (\<lambda>p. p > 0) profits);
            total_loss_amount = \<bar>sum_list (filter (\<lambda>p. p < 0) profits)\<bar>
        in if years > 0 \<and> ic > 0 \<and> days > 0 \<and> 0 \<le> final / ic
              \<and> double_overflow \<le> (final / ic) powr (1 / years) then Inl OverflowError
           else if years > 0 \<and> ic > 0 \<and> final / ic < 0 \<and> days > 0 then Inl ValidationError
           else Inr
             \<lparr> metrics_initial_capital = ic,
               final_capital = final,
               total_return = total_ret,
               total_return_rate = total_ret_rate,
               annualized_return_rate =
                 (if years > 0 \<and> ic > 0
                  then Some (((if days > 0 then (final / ic) powr (1 / years) else final / ic) - 1) * 100)
                  else None),
               total_trades = n,
               successful_trades = successful,
               failed_trades = int n - int successful,
               win_rate = (if n > 0 then real successful / real n else 0),
               average_profit = mean profits,
               max_profit = Max (set profits),
               max_loss = Min (set profits),
               max_drawdown = calculate_max_drawdown equity_curve,
               sharpe_ratio = calculate_sharpe_ratio trades 0.03,
               profit_factor =
                 (if total_loss_amount > 0 then Some (total_profit_amount / total_loss_amount)
                  else None) \<rparr>)"

subsection \<open>The simulation state and its transitions\<close>

text \<open>
  The local variables \<open>trades\<close>, \<open>capital\<close>, \<open>position\<close> and \<open>trade_id\<close> of a run.
  There is one variable \<open>position\<close>, which is \<open>None\<close> or one open position.
\<close>

record 'a bt_state =
  trades :: "backtest_trade list"
  capital :: real
  position :: "'a position option"
  next_trade_id :: nat

definition initial_state :: "backtest_request \<Rightarrow> 'a bt_state" where
  "initial_state req =
     \<lparr> trades = [], capital = initial_capital req, position = None, next_trade_id = 1 \<rparr>"

text \<open>
  The trade that every closing site of the source builds from the open position, the
  current date and the current price.
\<close>

definition make_trade :: "nat \<Rightarrow> 'a position \<Rightarrow> int \<Rightarrow> real \<Rightarrow> trade_label \<Rightarrow> backtest_trade" where
  "make_trade tid p d price lbl =
     \<lparr> trade_id = tid,
       buy_date = pos_buy_date p,
       buy_price = pos_buy_price p,
       sell_date = d,
       sell_price = price,
       shares = pos_shares p,
       profit = (price - pos_buy_price p) * real_of_int (pos_shares p),
       return_rate =
         (if pos_buy_price p > 0 then (price - pos_buy_price p) / pos_buy_price p else 0) * 100,
       trade_signal_type = lbl,
       hold_days = d - pos_buy_date p \<rparr>"

text \<open>The buy branch: the lot rounding, the capital check and the new position.\<close>

definition buy :: "backtest_request \<Rightarrow> int \<Rightarrow> real \<Rightarrow> 'a \<Rightarrow> 'a bt_state \<Rightarrow> 'a bt_state" where
  "buy req current_date current_price lbl st =
     (let shares = (shares_per_trade req div 100) * 100;
          cost = current_price * real_of_int shares
      in if capital st \<ge> cost then
           st\<lparr> position := Some \<lparr> pos_buy_date = current_date, pos_buy_price = current_price,
                                   pos_shares = shares, pos_label = lbl \<rparr>,
               capital := capital st - cost \<rparr>
         else st)"

text \<open>The sell branch and the forced sale after \<open>hold_days\<close>.\<close>

definition sell :: "int \<Rightarrow> real \<Rightarrow> trade_label \<Rightarrow> 'a position \<Rightarrow> 'a bt_state \<Rightarrow> 'a bt_state" where
  "sell current_date current_price lbl p st =
     st\<lparr> trades := trades st @ [make_trade (next_trade_id st) p current_date current_price lbl],
         capital := capital st + current_price * real_of_int (pos_shares p),
         next_trade_id := next_trade_id st + 1,
         position := None \<rparr>"

definition hold_days_check :: "backtest_request \<Rightarrow> int \<Rightarrow> real \<Rightarrow> ('a position \<Rightarrow> trade_label)
    \<Rightarrow> 'a bt_state \<Rightarrow> 'a bt_state" where
  "hold_days_check req current_date current_price lbl st =
     (case position st of
        None \<Rightarrow> st
      | Some p \<Rightarrow>
          (case req_hold_days req of
             None \<Rightarrow> st
           | Some h \<Rightarrow>
               (if current_date - pos_buy_date p \<ge> h
                then sell current_date current_price (lbl p) p st else st)))"

text \<open>
  The closing of a position that is still open after the loop, at the close and the date of
  the last row.  The result is the final trade list and the final capital; the trade
  counter and the variable \<open>position\<close> are not used after it.
\<close>

definition close_remaining :: "dataframe \<Rightarrow> ('a position \<Rightarrow> trade_label) \<Rightarrow> 'a bt_state
    \<Rightarrow> backtest_trade list \<times> real" where
  "close_remaining df lbl st =
     (case position st of
        None \<Rightarrow> (trades st, capital st)
      | Some p \<Rightarrow>
          (trades st @ [make_trade (next_trade_id st) p (date (last df)) (close (last df)) (lbl p)],
           capital st + close (last df) * real_of_int (pos_shares p)))"

definition empty_result :: "backtest_request \<Rightarrow> backtest_result" where
  "empty_result req =
     \<lparr> res_stock_code = stock_code req,
       res_backtest_period = (start_date req, end_date req),
       res_strategy_type = strategy_type req,
       res_metrics = empty_metrics (initial_capital req),
       res_trades = [],
       res_equity_curve = None \<rparr>"

text \<open>The equity curve, the metrics and the result record that end every strategy.\<close>

definition finish :: "backtest_request \<Rightarrow> backtest_trade list \<Rightarrow> py_error + backtest_result" where
  "finish req ts =
     (let equity_curve =
            calculate_equity_curve ts (initial_capital req) (start_date req) (end_date req)
      in case calculate_metrics ts (initial_capital req) equity_curve
                (start_date req) (end_date req) of
           Inl e \<Rightarrow> Inl e
         | Inr metrics \<Rightarrow>
             Inr \<lparr> res_stock_code = stock_code req,
                   res_backtest_period = (start_date req, end_date req),
                   res_strategy_type = strategy_type req,
                   res_metrics = metrics,
                   res_trades = ts,
                   res_equity_curve = Some equity_curve \<rparr>)"

subsection \<open>\<open>backtest_signal_based_strategy\<close>\<close>

text \<open>The body of the loop over the signals of one day.\<close>

definition process_signal :: "backtest_request \<Rightarrow> int \<Rightarrow> real \<Rightarrow> reason bt_state \<Rightarrow> signal
    \<Rightarrow> reason bt_state" where
  "process_signal req current_date current_price st sg =
     (if signal_type sg = ''buy'' \<and> position st = None then
        buy req current_date current_price (signal_reason sg) st
      else if signal_type sg = ''sell'' \<and> position st \<noteq> None then
        sell current_date current_price (Entry_reason (pos_label (the (position st))))
          (the (position st)) st
      else st)"

text \<open>
  The body of the loop over the rows.  A day without a matching signal is skipped by
  \<open>continue\<close>, before the check of \<open>hold_days\<close>.
\<close>

definition signal_day :: "backtest_request \<Rightarrow> signal list \<Rightarrow> reason bt_state \<Rightarrow> row
    \<Rightarrow> reason bt_state" where
  "signal_day req eligible_signals st current_row =
     (let current_date = date current_row;
          current_price = close current_row;
          todays = filter (\<lambda>s. signal_date s = current_date
                              \<and> \<not> signal_strength s < min_signal_strength req) eligible_signals
      in if todays = [] then st
         else
           let st = foldl (process_signal req current_date current_price) st todays
           in hold_days_check req current_date current_price
                (\<lambda>p. Entry_reason_hold_days (pos_label p)) st)"

definition eligible :: "backtest_request \<Rightarrow> signal list \<Rightarrow> signal list" where
  "eligible req signal_data =
     (let signal_types_filter =
            (case signal_types req of
               None \<Rightarrow> [''buy'', ''sell'']
             | Some ts \<Rightarrow> (if ts = [] then [''buy'', ''sell''] else ts))
      in filter (\<lambda>s. signal_type s \<in> set signal_types_filter
                     \<and> signal_strength s \<ge> min_signal_strength req) signal_data)"

text \<open>The state after the loop over the rows of the signal-based strategy.\<close>

definition signal_loop :: "backtest_request \<Rightarrow> signal list \<Rightarrow> dataframe \<Rightarrow> reason bt_state" where
  "signal_loop req signal_data df =
     foldl (signal_day req (eligible req signal_data)) (initial_state req) df"

text \<open>
  The strategy on the frame \<open>df0\<close> that \<open>get_stock_data\<close> has returned; the detector is
  called with its default window 5.
\<close>

definition backtest_signal_based_strategy :: "dataframe \<Rightarrow> backtest_request
    \<Rightarrow> py_error + backtest_result" where
  "backtest_signal_based_strategy df0 req =
     (if df0 = [] then Inl ValueError
      else
        let df = calculate_technical_indicators df0
        in if length df < 30 then Inr (empty_result req)
           else
             let signal_data = detect_trading_signals_for_backtest df 5
             in if signal_data = [] then Inr (empty_result req)
                else
                  let st = signal_loop req signal_data df;
                      (ts, final) = close_remaining df (\<lambda>p. Entry_reason_end (pos_label p)) st
                  in finish req ts)"

subsection \<open>\<open>backtest_ma_cross_strategy\<close>\<close>

text \<open>The golden-cross and death-cross branches of the loop body at index \<open>i\<close>.\<close>

definition ma_cross_trade :: "backtest_request \<Rightarrow> row \<Rightarrow> row \<Rightarrow> unit bt_state \<Rightarrow> unit bt_state" where
  "ma_cross_trade req current_row prev_row st =
     (if cell_gt (ma5 current_row) (ma30 current_row) \<and> cell_le (ma5 prev_row) (ma30 prev_row)
         \<and> position st = None then
        buy req (date current_row) (close current_row) () st
      else if cell_lt (ma5 current_row) (ma30 current_row)
         \<and> cell_ge (ma5 prev_row) (ma30 prev_row) \<and> position st \<noteq> None then
        sell (date current_row) (close current_row) MA_death_cross (the (position st)) st
      else st)"

definition ma_cross_day :: "backtest_request \<Rightarrow> dataframe \<Rightarrow> unit bt_state \<Rightarrow> nat \<Rightarrow> unit bt_state" where
  "ma_cross_day req df st i =
     (let current_row = df ! i; prev_row = df ! (i - 1)
      in if \<not> notna (ma5 current_row) \<or> \<not> notna (ma30 current_row) then st
         else if \<not> notna (ma5 prev_row) \<or> \<not> notna (ma30 prev_row) then st
         else
           let st = ma_cross_trade req current_row prev_row st
           in hold_days_check req (date current_row) (close current_row)
                (\<lambda>p. MA_golden_hold_expired) st)"

definition ma_cross_loop :: "backtest_request \<Rightarrow> dataframe \<Rightarrow> unit bt_state" where
  "ma_cross_loop req df = foldl (ma_cross_day req df) (initial_state req) [1..<length df]"

definition backtest_ma_cross_strategy :: "dataframe \<Rightarrow> backtest_request
    \<Rightarrow> py_error + backtest_result" where
  "backtest_ma_cross_strategy df0 req =
     (if df0 = [] then Inl ValueError
      else
        let df = calculate_technical_indicators df0
        in if length df < 30 then Inr (empty_result req)
           else
             let st = ma_cross_loop req df;
                 (ts, final) = close_remaining df (\<lambda>p. MA_golden_backtest_end) st
             in finish req ts)"

subsection \<open>The ledger in the arithmetic of doubles\<close>







section \<open>Auxiliary notions for the verification\<close>



text \<open>
  The date invariant of a run up to the day \<open>b\<close>: no recorded trade is sold before it was
  bought, and the open position was bought on \<open>b\<close> or earlier.
\<close>

definition dates_ok :: "int \<Rightarrow> 'a bt_state \<Rightarrow> bool" where
  "dates_ok b st \<longleftrightarrow> (\<forall>t\<in>set (trades st). buy_date t \<le> sell_date t)
      \<and> (\<forall>p. position st = Some p \<longrightarrow> pos_buy_date p \<le> b)"

text \<open>The MACD line of a list of closes, as the indicator engine computes it.\<close>

definition macd_line :: "real list \<Rightarrow> real list" where
  "macd_line cs = map2 (\<lambda>a b. a - b) (ewm_mean 12 cs) (ewm_mean 26 cs)"

text \<open>The trades of a finished run; a run that raised has none.\<close>

definition run_trades :: "py_error + backtest_result \<Rightarrow> backtest_trade list" where
  "run_trades res = (case res of Inl e \<Rightarrow> [] | Inr r \<Rightarrow> res_trades r)"

definition trade_dates :: "backtest_trade \<Rightarrow> int \<times> int" where
  "trade_dates t = (buy_date t, sell_date t)"

text \<open>A row as the data source delivers it, without indicator columns.\<close>

definition raw_row :: "int \<Rightarrow> real \<Rightarrow> real \<Rightarrow> row" where
  "raw_row d c v =
     \<lparr> date = d, open_price = c, close = c, high = c, low = c, volume = v,
       ma5 = None, ma10 = None, ma20 = None, ma30 = None, ma60 = None, rsi = None,
       macd = None, macd_signal = None, macd_histogram = None,
       bollinger_middle = None, bollinger_upper = None, bollinger_lower = None \<rparr>"

text \<open>Consecutive days from \<open>d\<close> on with the given closes and a constant volume of 1000.\<close>

fun raw_rows :: "int \<Rightarrow> real list \<Rightarrow> dataframe" where
  "raw_rows d [] = []"
| "raw_rows d (c # cs) = raw_row d c 1000 # raw_rows (d + 1) cs"

text \<open>A request with the default parameters of \<open>BacktestRequest\<close> for the days 0 to 30.\<close>

definition default_request :: backtest_request where
  "default_request =
     \<lparr> stock_code = ''000001'', start_date = 0, end_date = 30, initial_capital = 100000,
       strategy_type = ''signal_based'', shares_per_trade = 100, req_hold_days = None,
       min_signal_strength = 0.5, signal_types = None \<rparr>"

text \<open>
  Sample inputs: a buy and a sell signal, a two-day frame with the closes 50 and 60 whose
  days carry them, and a state with and without an open position.
\<close>

definition sample_buy :: signal where
  "sample_buy = \<lparr> signal_type = ''buy'', signal_strength = 0.9,
                   signal_reason = RSI_oversold 15 False, signal_date = 1,
                   indicators_used = [RSI] \<rparr>"

definition sample_sell :: signal where
  "sample_sell = \<lparr> signal_type = ''sell'', signal_strength = 0.9,
                    signal_reason = RSI_overbought 85 False, signal_date = 2,
                    indicators_used = [RSI] \<rparr>"

definition sample_frame :: dataframe where
  "sample_frame = [raw_row 1 50 1000, raw_row 2 60 1000]"

definition sample_open_state :: "'a \<Rightarrow> 'a bt_state" where
  "sample_open_state l =
     \<lparr> trades = [], capital = 95000,
       position = Some \<lparr> pos_buy_date = 1, pos_buy_price = 50, pos_shares = 100, pos_label = l \<rparr>,
       next_trade_id = 1 \<rparr>"

definition sample_flat_state :: "'a bt_state" where
  "sample_flat_state = \<lparr> trades = [], capital = 100000, position = None, next_trade_id = 1 \<rparr>"

text \<open>Rows on which the fast average is above, respectively below, the slow one.\<close>

definition row_above :: row where
  "row_above = (raw_row 2 60 1000)\<lparr> ma5 := Some 11, ma30 := Some 10 \<rparr>"

definition row_below :: row where
  "row_below = (raw_row 1 50 1000)\<lparr> ma5 := Some 9, ma30 := Some 10 \<rparr>"

text \<open>
  Two price series of 31 trading days: a constant close of 100, and a close of 100 that
  falls to 90 on the last day.
\<close>

definition flat_closes :: "real list" where
  "flat_closes = [100, 100, 100, 100, 100, 100, 100, 100, 100, 100,
                  100, 100, 100, 100, 100, 100, 100, 100, 100, 100,
                  100, 100, 100, 100, 100, 100, 100, 100, 100, 100, 100]"

definition flat_frame :: dataframe where
  "flat_frame = raw_rows 0 flat_closes"

definition drop_closes :: "real list" where
  "drop_closes = [100, 100, 100, 100, 100, 100, 100, 100, 100, 100,
                  100, 100, 100, 100, 100, 100, 100, 100, 100, 100,
                  100, 100, 100, 100, 100, 100, 100, 100, 100, 100, 90]"

definition drop_frame :: dataframe where
  "drop_frame = raw_rows 0 drop_closes"

text \<open>
  The scan that the latest-day detector gives when it is applied to the frame truncated
  after every index from 30 on, the results concatenated in date order.
\<close>

definition latest_scan :: "dataframe \<Rightarrow> nat \<Rightarrow> signal list" where
  "latest_scan df window =
     concat (map (\<lambda>i. detect_trading_signals (take (i + 1) df) window) [30..<length df])"

text \<open>
  The cost of the positions bought on the day \<open>d\<close> and the proceeds of the positions sold
  on the day \<open>d\<close>, over a list of trades.
\<close>

definition day_buys :: "backtest_trade list \<Rightarrow> int \<Rightarrow> real" where
  "day_buys ts d =
     sum_list (map (\<lambda>t. buy_price t * real_of_int (shares t)) (filter (\<lambda>t. buy_date t = d) ts))"

definition day_sells :: "backtest_trade list \<Rightarrow> int \<Rightarrow> real" where
  "day_sells ts d =
     sum_list (map (\<lambda>t. sell_price t * real_of_int (shares t)) (filter (\<lambda>t. sell_date t = d) ts))"

text \<open>The two lists that the dictionary \<open>trades_by_date\<close> holds for a date.\<close>

definition entries :: "trades_by_date \<Rightarrow> int \<Rightarrow> backtest_trade list \<times> backtest_trade list" where
  "entries m d = (case m d of None \<Rightarrow> ([], []) | Some x \<Rightarrow> x)"

text \<open>The curve of a running capital \<open>c\<close> over the days \<open>ds\<close>.\<close>

fun curve_from :: "backtest_trade list \<Rightarrow> real \<Rightarrow> int list \<Rightarrow> equity_point list" where
  "curve_from ts c [] = []"
| "curve_from ts c (d # ds) =
     \<lparr> ep_date = d, ep_capital = c - day_buys ts d + day_sells ts d \<rparr>
       # curve_from ts (c - day_buys ts d + day_sells ts d) ds"

text \<open>The trade of the sample run, bought on day 1 at 50 and sold on day 2 at 60.\<close>

definition sample_trade :: backtest_trade where
  "sample_trade =
     make_trade 1 \<lparr> pos_buy_date = 1, pos_buy_price = 50, pos_shares = 100,
                    pos_label = RSI_oversold 15 False \<rparr> 2 60
       (Entry_reason (RSI_oversold 15 False))"

text \<open>
  The 14-period average gain and average loss from which the RSI column is computed, and
  a series of 15 days whose close rises by one every day.
\<close>

definition avg_gain :: "real list \<Rightarrow> real option list" where
  "avg_gain closes = rolling_mean 14 (map gain_of (diff closes))"

definition avg_loss :: "real list \<Rightarrow> real option list" where
  "avg_loss closes = rolling_mean 14 (map loss_of (diff closes))"

definition rising_closes :: "real list" where
  "rising_closes = [100, 101, 102, 103, 104, 105, 106, 107, 108, 109, 110, 111, 112, 113, 114]"

definition rising_frame :: dataframe where
  "rising_frame = raw_rows 0 rising_closes"

text \<open>
  The trade of the run on the falling series: bought and sold on day 30 at the close 90.
\<close>

definition drop_trade :: backtest_trade where
  "drop_trade =
     make_trade 1 \<lparr> pos_buy_date = 30, pos_buy_price = 90, pos_shares = 100,
                    pos_label = RSI_oversold 0 False \<rparr> 30 90
       (Entry_reason (RSI_oversold 0 False))"

text \<open>
  The invariant of a run whose lot-rounded share count is zero: the capital is the initial
  capital, every recorded trade has no shares and no profit, and an open position has no
  shares.
\<close>

definition zero_ok :: "real \<Rightarrow> 'a bt_state \<Rightarrow> bool" where
  "zero_ok ic st \<longleftrightarrow> capital st = ic
      \<and> (\<forall>t\<in>set (trades st). shares t = 0 \<and> profit t = 0)
      \<and> (\<forall>p. position st = Some p \<longrightarrow> pos_shares p = 0)"

text \<open>The default request with another number of shares per trade.\<close>

definition request_with_shares :: "int \<Rightarrow> backtest_request" where
  "request_with_shares n = default_request\<lparr> shares_per_trade := n \<rparr>"

section \<open>Verified properties\<close>

subsection \<open>The indicator engine keeps the rows and fills the columns\<close>

lemma length_rolling_mean [simp]: "length (rolling_mean w xs) = length xs"
  by (simp add: rolling_mean_def)

lemma length_rolling_std [simp]: "length (rolling_std w xs) = length xs"
  by (simp add: rolling_std_def)

lemma length_diff [simp]: "length (diff xs) = length xs"
  by (simp add: diff_def)

lemma length_rsi_column [simp]: "length (rsi_column xs) = length xs"
  by (simp add: rsi_column_def Let_def)

lemma length_ewm_from [simp]: "length (ewm_from a y xs) = length xs"
  by (induction xs arbitrary: y) simp_all

lemma length_ewm_mean [simp]: "length (ewm_mean sp xs) = length xs"
  by (cases xs) simp_all

lemma length_col_sub [simp]: "length (col_sub xs ys) = min (length xs) (length ys)"
  by (simp add: col_sub_def)

lemma length_col_add [simp]: "length (col_add xs ys) = min (length xs) (length ys)"
  by (simp add: col_add_def)

lemma length_col_scale [simp]: "length (col_scale xs c) = length xs"
  by (simp add: col_scale_def)

lemma length_assign [simp]: "length (assign upd col df) = min (length df) (length col)"
  by (simp add: assign_def)

lemma map_assign_other:
  "(\<And>f r. g (upd f r) = g r) \<Longrightarrow> length col = length df \<Longrightarrow> map g (assign upd col df) = map g df"
  by (auto simp: assign_def list_eq_iff_nth_eq)

lemma map_assign_same:
  "(\<And>f r. g (upd f r) = f (g r)) \<Longrightarrow> length col = length df \<Longrightarrow> map g (assign upd col df) = col"
  by (auto simp: assign_def list_eq_iff_nth_eq)

lemma map_the_Some: "map the (map Some xs) = xs"
  by (simp add: comp_def)

lemma length_calc [simp]: "length (calculate_technical_indicators df) = length df"
  by (simp add: calculate_technical_indicators_def Let_def)

lemma calc_date: "map date (calculate_technical_indicators df) = map date df"
  by (simp add: calculate_technical_indicators_def Let_def map_assign_other)

lemma calc_close: "map close (calculate_technical_indicators df) = map close df"
  by (simp add: calculate_technical_indicators_def Let_def map_assign_other)

lemma calc_volume: "map volume (calculate_technical_indicators df) = map volume df"
  by (simp add: calculate_technical_indicators_def Let_def map_assign_other)

lemma calc_ma5: "map ma5 (calculate_technical_indicators df) = rolling_mean 5 (map close df)"
  by (simp add: calculate_technical_indicators_def Let_def map_assign_other map_assign_same)

lemma calc_ma30: "map ma30 (calculate_technical_indicators df) = rolling_mean 30 (map close df)"
  by (simp add: calculate_technical_indicators_def Let_def map_assign_other map_assign_same)

lemma calc_rsi: "map rsi (calculate_technical_indicators df) = rsi_column (map close df)"
  by (simp add: calculate_technical_indicators_def Let_def map_assign_other map_assign_same)

lemma calc_macd:
  "map macd (calculate_technical_indicators df) = map Some (macd_line (map close df))"
  by (simp add: calculate_technical_indicators_def Let_def map_assign_other map_assign_same
      macd_line_def del: map_map)

lemma calc_macd_signal:
  "map macd_signal (calculate_technical_indicators df)
     = map Some (ewm_mean 9 (macd_line (map close df)))"
  by (simp add: calculate_technical_indicators_def Let_def map_assign_other map_assign_same
      macd_line_def map_the_Some del: map_map)

lemma calc_macd_histogram:
  "map macd_histogram (calculate_technical_indicators df)
     = col_sub (map Some (macd_line (map close df)))
         (map Some (ewm_mean 9 (macd_line (map close df))))"
  by (simp add: calculate_technical_indicators_def Let_def map_assign_other map_assign_same
      macd_line_def map_the_Some del: map_map)

subsection \<open>The ledger invariant\<close>












lemma one_less_double_overflow: "1 < double_overflow"
  by (simp add: double_overflow_def)

lemma calculate_metrics_returns:
  "ic \<le> 0 \<or> e \<le> s \<or>
   (0 \<le> (ic + sum_list (map profit ts)) / ic \<and>
    ((ic + sum_list (map profit ts)) / ic) powr (1 / (real_of_int (e - s) / 365.25))
      < double_overflow) \<Longrightarrow>
     \<exists>m. calculate_metrics ts ic curve s e = Inr m"
  by (auto simp: calculate_metrics_def Let_def)

subsection \<open>The date invariant\<close>

lemma dates_ok_mono: "dates_ok b st \<Longrightarrow> b \<le> d \<Longrightarrow> dates_ok d st"
  by (auto simp: dates_ok_def)

lemma dates_ok_buy: "dates_ok d st \<Longrightarrow> dates_ok d (buy req d price l st)"
  by (auto simp: dates_ok_def buy_def Let_def)

lemma dates_ok_sell:
  "position st = Some p \<Longrightarrow> dates_ok d st \<Longrightarrow> dates_ok d (sell d price lbl p st)"
  by (auto simp: dates_ok_def sell_def make_trade_def)

lemma dates_ok_hold_days_check:
  "dates_ok d st \<Longrightarrow> dates_ok d (hold_days_check req d price lbl st)"
  by (auto simp: hold_days_check_def dates_ok_sell split: option.splits)

lemma dates_ok_process_signal:
  "dates_ok d st \<Longrightarrow> dates_ok d (process_signal req d price st sg)"
  by (auto simp: process_signal_def dates_ok_buy dates_ok_sell)

lemma dates_ok_foldl_process:
  "dates_ok d st \<Longrightarrow> dates_ok d (foldl (process_signal req d price) st sgs)"
  by (induction sgs arbitrary: st) (simp_all add: dates_ok_process_signal)

lemma dates_ok_signal_day:
  "dates_ok b st \<Longrightarrow> b \<le> date r \<Longrightarrow> dates_ok (date r) (signal_day req el st r)"
proof -
  assume a: "dates_ok b st" "b \<le> date r"
  have m: "dates_ok (date r) st" using a by (rule dates_ok_mono)
  show ?thesis
    by (simp add: signal_day_def Let_def m dates_ok_hold_days_check dates_ok_foldl_process)
qed

lemma dates_ok_foldl_signal_day:
  "sorted (map date rows) \<Longrightarrow> \<forall>r\<in>set rows. b \<le> date r \<and> date r \<le> hi \<Longrightarrow> b \<le> hi \<Longrightarrow>
   dates_ok b st \<Longrightarrow> dates_ok hi (foldl (signal_day req el) st rows)"
proof (induction rows arbitrary: st b)
  case Nil
  then show ?case by (auto intro: dates_ok_mono)
next
  case (Cons r rs)
  have 1: "dates_ok (date r) (signal_day req el st r)"
    using Cons.prems by (auto intro: dates_ok_signal_day)
  have 2: "\<forall>r'\<in>set rs. date r \<le> date r' \<and> date r' \<le> hi"
    using Cons.prems by auto
  have 3: "sorted (map date rs)" "date r \<le> hi" using Cons.prems by auto
  show ?case using Cons.IH[OF 3(1) 2 3(2) 1] by simp
qed

subsection \<open>The RSI signal strength\<close>

text \<open>
  The value of \<open>_calculate_rsi_signal_strength\<close> on every band.  On the band from 25 to
  30 of a buy signal, and from 70 to 75 of a sell signal, the linear term is at most 0.7.
\<close>

lemma rsi_signal_strength_bands:
  "(r < 20 \<longrightarrow> calculate_rsi_signal_strength r ''buy'' = 0.9) \<and>
   (20 \<le> r \<and> r < 25 \<longrightarrow> calculate_rsi_signal_strength r ''buy'' = 0.8) \<and>
   (25 \<le> r \<and> r < 30 \<longrightarrow>
      calculate_rsi_signal_strength r ''buy'' = 0.6 + (30 - r) / 10 * 0.2 \<and>
      0.6 < calculate_rsi_signal_strength r ''buy'' \<and>
      calculate_rsi_signal_strength r ''buy'' \<le> 0.7) \<and>
   (80 < r \<longrightarrow> calculate_rsi_signal_strength r ''sell'' = 0.9) \<and>
   (75 < r \<and> r \<le> 80 \<longrightarrow> calculate_rsi_signal_strength r ''sell'' = 0.8) \<and>
   (70 < r \<and> r \<le> 75 \<longrightarrow>
      calculate_rsi_signal_strength r ''sell'' = 0.6 + (r - 70) / 10 * 0.2 \<and>
      0.6 < calculate_rsi_signal_strength r ''sell'' \<and>
      calculate_rsi_signal_strength r ''sell'' \<le> 0.7)"
  by (simp add: calculate_rsi_signal_strength_def)

text \<open>
  C3. The code gives the steps 0.9 below an RSI of 20 and 0.8 below 25, but its linear band
  below 30 does not run between 0.6 and 0.8, as the comment on its line says: at an RSI of
  25, the deepest breach of the band, the buy strength is 0.7, and it jumps to 0.8 just
  below 25.  The sell side does the same at 75.
\<close>

theorem rsi_strength_band_ends_at_0_7:
  "calculate_rsi_signal_strength 25 ''buy'' = 0.7 \<and>
   calculate_rsi_signal_strength 24.99 ''buy'' = 0.8 \<and>
   calculate_rsi_signal_strength 19.99 ''buy'' = 0.9 \<and>
   calculate_rsi_signal_strength 75 ''sell'' = 0.7 \<and>
   calculate_rsi_signal_strength 75.01 ''sell'' = 0.8 \<and>
   calculate_rsi_signal_strength 80.01 ''sell'' = 0.9"
  by (simp add: calculate_rsi_signal_strength_def)

subsection \<open>Results of a run\<close>



lemma sample_run:
  "signal_loop default_request [sample_buy, sample_sell] sample_frame =
     \<lparr> trades = [make_trade 1 \<lparr> pos_buy_date = 1, pos_buy_price = 50, pos_shares = 100,
                                pos_label = RSI_oversold 15 False \<rparr> 2 60
                    (Entry_reason (RSI_oversold 15 False))],
       capital = 101000, position = None, next_trade_id = 2 \<rparr>"
  by (simp add: signal_loop_def sample_frame_def sample_buy_def sample_sell_def default_request_def
      eligible_def signal_day_def raw_row_def initial_state_def process_signal_def buy_def
      sell_def hold_days_check_def Let_def)

lemma short_run:
  "backtest_signal_based_strategy sample_frame default_request = Inr (empty_result default_request)"
  by (simp add: backtest_signal_based_strategy_def Let_def sample_frame_def)


subsection \<open>Claims about the backtester\<close>

text \<open>
  C5. A run has one variable for the open position, so that at most one position is open
  at a time.  In the signal-based strategy a buy signal that arrives while a position is
  open, and a sell signal that arrives while none is open, leave the whole state as it is:
  no position is opened, no trade is recorded and the capital is unchanged.  In the
  moving-average strategy the same holds for a golden cross while a position is open and
  for a death cross while none is open.
\<close>

theorem single_position_conditions_ignored:
  "(signal_type sg = ''buy'' \<and> position st \<noteq> None \<longrightarrow> process_signal req d price st sg = st) \<and>
   (signal_type sg = ''sell'' \<and> position st = None \<longrightarrow> process_signal req d price st sg = st) \<and>
   (cell_gt (ma5 r) (ma30 r) \<and> cell_le (ma5 pr) (ma30 pr) \<and> position mst \<noteq> None
      \<longrightarrow> ma_cross_trade req r pr mst = mst) \<and>
   (cell_lt (ma5 r) (ma30 r) \<and> cell_ge (ma5 pr) (ma30 pr) \<and> position mst = None
      \<longrightarrow> ma_cross_trade req r pr mst = mst)"
  by (auto simp: process_signal_def ma_cross_trade_def cell_gt_def cell_lt_def
      split: option.splits)

theorem single_position_conditions_ignored_witness:
  "signal_type sample_buy = ''buy'' \<and> position (sample_open_state (RSI_oversold 15 False)) \<noteq> None \<and>
   process_signal default_request 2 60 (sample_open_state (RSI_oversold 15 False)) sample_buy
     = sample_open_state (RSI_oversold 15 False) \<and>
   signal_type sample_sell = ''sell'' \<and> position (sample_flat_state :: reason bt_state) = None \<and>
   process_signal default_request 2 60 sample_flat_state sample_sell = sample_flat_state \<and>
   cell_gt (ma5 row_above) (ma30 row_above) \<and> cell_le (ma5 row_below) (ma30 row_below) \<and>
   position (sample_open_state ()) \<noteq> None \<and>
   ma_cross_trade default_request row_above row_below (sample_open_state ()) = sample_open_state () \<and>
   cell_lt (ma5 row_below) (ma30 row_below) \<and> cell_ge (ma5 row_above) (ma30 row_above) \<and>
   position (sample_flat_state :: unit bt_state) = None \<and>
   ma_cross_trade default_request row_below row_above sample_flat_state = sample_flat_state"
  using single_position_conditions_ignored [of sample_buy "sample_open_state (RSI_oversold 15 False)"
      default_request 2 60 row_above row_below "sample_open_state ()"]
    single_position_conditions_ignored [of sample_sell sample_flat_state
      default_request 2 60 row_below row_above sample_flat_state]
  by (simp add: sample_buy_def sample_sell_def sample_open_state_def sample_flat_state_def
      row_above_def row_below_def raw_row_def cell_gt_def cell_le_def cell_lt_def cell_ge_def)


subsection \<open>The equity curve\<close>

lemma entries_group_trade:
  "entries (group_trade m t) d =
     (fst (entries m d) @ (if buy_date t = d then [t] else []),
      snd (entries m d) @ (if sell_date t = d then [t] else []))"
  by (auto simp: group_trade_def entries_def Let_def split: option.splits)

lemma entries_foldl_group:
  "entries (foldl group_trade m ts) d =
     (fst (entries m d) @ filter (\<lambda>t. buy_date t = d) ts,
      snd (entries m d) @ filter (\<lambda>t. sell_date t = d) ts)"
  by (induction ts arbitrary: m) (simp_all add: entries_group_trade)

lemma entries_trades_by_date:
  "entries (foldl group_trade Map.empty ts) d =
     (filter (\<lambda>t. buy_date t = d) ts, filter (\<lambda>t. sell_date t = d) ts)"
  by (simp add: entries_foldl_group) (simp add: entries_def)

lemma apply_buys_sum:
  "apply_buys c ts = c - sum_list (map (\<lambda>t. buy_price t * real_of_int (shares t)) ts)"
  unfolding apply_buys_def by (induction ts arbitrary: c) simp_all

lemma apply_sells_sum:
  "apply_sells c ts = c + sum_list (map (\<lambda>t. sell_price t * real_of_int (shares t)) ts)"
  unfolding apply_sells_def by (induction ts arbitrary: c) simp_all

lemma equity_day_entries:
  "equity_day m acc d =
     (apply_sells (apply_buys (fst acc) (fst (entries m d))) (snd (entries m d)),
      snd acc @ [\<lparr> ep_date = d,
                   ep_capital = apply_sells (apply_buys (fst acc) (fst (entries m d)))
                                  (snd (entries m d)) \<rparr>])"
  by (simp add: equity_day_def entries_def Let_def apply_buys_def apply_sells_def
      split: option.splits)

lemma equity_day_curve:
  "equity_day (foldl group_trade Map.empty ts) (c, acc) d =
     (c - day_buys ts d + day_sells ts d,
      acc @ [\<lparr> ep_date = d, ep_capital = c - day_buys ts d + day_sells ts d \<rparr>])"
  by (simp add: equity_day_entries entries_trades_by_date apply_buys_sum apply_sells_sum
      day_buys_def day_sells_def)

lemma foldl_equity_day:
  "snd (foldl (equity_day (foldl group_trade Map.empty ts)) (c, acc) ds)
     = acc @ curve_from ts c ds"
  by (induction ds arbitrary: c acc) (simp_all add: equity_day_curve)

lemma equity_curve_eq: "calculate_equity_curve ts ic s e = curve_from ts ic [s..e]"
  by (simp add: calculate_equity_curve_def Let_def foldl_equity_day)

lemma curve_from_dates: "map ep_date (curve_from ts c ds) = ds"
  by (induction ds arbitrary: c) simp_all

lemma length_curve_from [simp]: "length (curve_from ts c ds) = length ds"
  by (induction ds arbitrary: c) simp_all

lemma curve_from_step:
  "k < length ds \<Longrightarrow>
   ep_capital (curve_from ts c ds ! k) =
     (if k = 0 then c else ep_capital (curve_from ts c ds ! (k - 1)))
       - day_buys ts (ds ! k) + day_sells ts (ds ! k)"
proof (induction ds arbitrary: c k)
  case Nil
  then show ?case by simp
next
  case (Cons d ds)
  show ?case
  proof (cases k)
    case 0
    then show ?thesis by simp
  next
    case (Suc j)
    then have j: "j < length ds" using Cons.prems by simp
    show ?thesis
    proof (cases j)
      case 0
      then show ?thesis using Suc j by (cases ds) simp_all
    next
      case (Suc i)
      then show ?thesis using Cons.IH [OF j] \<open>k = Suc j\<close> by simp
    qed
  qed
qed

lemma day_sums_empty:
  "\<forall>t\<in>set ts. buy_date t \<noteq> d \<and> sell_date t \<noteq> d \<Longrightarrow> day_buys ts d = 0 \<and> day_sells ts d = 0"
  by (induction ts) (simp_all add: day_buys_def day_sells_def)

text \<open>
  C7. The equity curve has one point for every calendar day from \<open>start\<close> to \<open>end\<close>,
  in order.  Its capital is a running value: the capital of a day is that of the day before
  (the initial capital on the first day), less \<open>buy_price * shares\<close> of the trades bought
  on that day, plus \<open>sell_price * shares\<close> of the trades sold on that day; on a day on
  which no trade is bought or sold it is unchanged.
\<close>

theorem equity_curve_running_capital:
  "map ep_date (calculate_equity_curve ts ic s e) = [s..e] \<and>
   (\<forall>k < length (calculate_equity_curve ts ic s e).
      ep_capital (calculate_equity_curve ts ic s e ! k) =
        (if k = 0 then ic else ep_capital (calculate_equity_curve ts ic s e ! (k - 1)))
          - day_buys ts (s + int k) + day_sells ts (s + int k)) \<and>
   (\<forall>k < length (calculate_equity_curve ts ic s e).
      (\<forall>t\<in>set ts. buy_date t \<noteq> s + int k \<and> sell_date t \<noteq> s + int k) \<longrightarrow>
      ep_capital (calculate_equity_curve ts ic s e ! k) =
        (if k = 0 then ic else ep_capital (calculate_equity_curve ts ic s e ! (k - 1))))"
proof -
  have nth: "\<And>k. k < length [s..e] \<Longrightarrow> [s..e] ! k = s + int k" by simp
  have step: "\<And>k. k < length [s..e] \<Longrightarrow>
      ep_capital (curve_from ts ic [s..e] ! k) =
        (if k = 0 then ic else ep_capital (curve_from ts ic [s..e] ! (k - 1)))
          - day_buys ts (s + int k) + day_sells ts (s + int k)"
    using curve_from_step [of _ "[s..e]" ts ic] nth by simp
  show ?thesis
    unfolding equity_curve_eq
    using step by (auto simp: curve_from_dates dest: day_sums_empty)
qed


theorem equity_curve_running_capital_witness:
  "map ep_date (calculate_equity_curve [sample_trade] 100000 0 3) = [0..3] \<and>
   (1::nat) < length (calculate_equity_curve [sample_trade] 100000 0 3) \<and>
   ep_capital (calculate_equity_curve [sample_trade] 100000 0 3 ! 1) =
     ep_capital (calculate_equity_curve [sample_trade] 100000 0 3 ! 0)
       - day_buys [sample_trade] 1 + day_sells [sample_trade] 1 \<and>
   (3::nat) < length (calculate_equity_curve [sample_trade] 100000 0 3) \<and>
   buy_date sample_trade \<noteq> 3 \<and> sell_date sample_trade \<noteq> 3 \<and>
   ep_capital (calculate_equity_curve [sample_trade] 100000 0 3 ! 3) =
     ep_capital (calculate_equity_curve [sample_trade] 100000 0 3 ! 2)"
proof -
  let ?C = "calculate_equity_curve [sample_trade] 100000 0 3"
  note t = equity_curve_running_capital [of "[sample_trade]" 100000 0 3]
  have "length (map ep_date ?C) = length [0..3::int]" using t by simp
  then have len: "length ?C = 4" by simp
  have d: "buy_date sample_trade \<noteq> 3 \<and> sell_date sample_trade \<noteq> 3"
    by (simp add: sample_trade_def make_trade_def)
  have k1: "ep_capital (?C ! 1) = ep_capital (?C ! 0)
       - day_buys [sample_trade] 1 + day_sells [sample_trade] 1"
    using t [THEN conjunct2, THEN conjunct1, rule_format, of 1] len by simp
  have k3: "ep_capital (?C ! 3) = ep_capital (?C ! 2)"
    using t [THEN conjunct2, THEN conjunct2, rule_format, of 3] len d by simp
  show ?thesis using t len d k1 k3 by simp
qed


subsection \<open>The RSI column\<close>

lemma raw_rows_close: "map close (raw_rows d cs) = cs"
  by (induction cs arbitrary: d) (simp_all add: raw_row_def)

lemma raw_rows_date: "map date (raw_rows d cs) = map (\<lambda>k. d + int k) [0..<length cs]"
proof (induction cs arbitrary: d)
  case Nil
  then show ?case by simp
next
  case (Cons c cs)
  have "map (\<lambda>k. d + int k) [0..<length (c # cs)]
        = d # map (\<lambda>k. d + 1 + int k) [0..<length cs]"
    by (simp add: upt_conv_Cons map_Suc_upt [symmetric] del: upt_Suc)
  then show ?case using Cons.IH [of "d + 1"] by (simp add: raw_row_def)
qed

lemma length_raw_rows [simp]: "length (raw_rows d cs) = length cs"
  by (induction cs arbitrary: d) simp_all

lemma rsi_column_nth:
  "i < length cs \<Longrightarrow> rsi_column cs ! i = rsi_of_rs (rs_of (avg_gain cs ! i) (avg_loss cs ! i))"
  by (simp add: rsi_column_def avg_gain_def avg_loss_def Let_def)

lemma calc_rsi_nth:
  "i < length df \<Longrightarrow> rsi (calculate_technical_indicators df ! i) = rsi_column (map close df) ! i"
  using calc_rsi [of df] by (metis length_calc nth_map)

lemma gain_of_nonneg: "0 \<le> gain_of d"
  by (simp add: gain_of_def split: option.splits)

lemma loss_of_nonneg: "0 \<le> loss_of d"
  by (simp add: loss_of_def split: option.splits)

lemma rolling_mean_Some_iff:
  "i < length xs \<Longrightarrow> (rolling_mean w xs ! i \<noteq> None) = (w \<le> i + 1)"
  by (auto simp: rolling_mean_def)

lemma rolling_mean_nonneg:
  "i < length xs \<Longrightarrow> \<forall>x\<in>set xs. 0 \<le> x \<Longrightarrow> rolling_mean w xs ! i = Some m \<Longrightarrow> 0 \<le> m"
proof -
  assume a: "i < length xs" "\<forall>x\<in>set xs. 0 \<le> x" "rolling_mean w xs ! i = Some m"
  have "\<forall>x\<in>set (take w (drop (i + 1 - w) xs)). 0 \<le> x"
    using a(2) by (meson in_set_dropD in_set_takeD)
  then have "0 \<le> sum_list (take w (drop (i + 1 - w) xs))" by (simp add: sum_list_nonneg)
  then show ?thesis using a(1,3) by (auto simp: rolling_mean_def split: if_splits)
qed

lemma avg_gain_defined:
  "i < length cs \<Longrightarrow> avg_loss cs ! i = Some l \<Longrightarrow> \<exists>g. 0 \<le> g \<and> avg_gain cs ! i = Some g"
proof -
  assume a: "i < length cs" "avg_loss cs ! i = Some l"
  have "14 \<le> i + 1"
    using a rolling_mean_Some_iff [of i "map loss_of (diff cs)" 14] by (simp add: avg_loss_def)
  then obtain g where g: "avg_gain cs ! i = Some g"
    using a(1) rolling_mean_Some_iff [of i "map gain_of (diff cs)" 14]
    by (auto simp: avg_gain_def)
  have "0 \<le> g"
    using rolling_mean_nonneg [of i "map gain_of (diff cs)" 14 g] a(1) g
    by (auto simp: avg_gain_def gain_of_nonneg)
  then show ?thesis using g by blast
qed

lemma avg_loss_nonneg:
  "i < length cs \<Longrightarrow> avg_loss cs ! i = Some l \<Longrightarrow> 0 \<le> l"
  using rolling_mean_nonneg [of i "map loss_of (diff cs)" 14 l]
  by (auto simp: avg_loss_def loss_of_nonneg)

text \<open>The value that is stored in an RSI cell is never an infinity.\<close>

lemma rsi_cell_cases:
  "0 \<le> g \<Longrightarrow> 0 \<le> l \<Longrightarrow>
     fl_rsub 100 (fl_rdiv 100 (fl_radd 1 (fdiv g l))) = NaN \<or>
     (\<exists>r. 0 \<le> r \<and> r \<le> 100 \<and> fl_rsub 100 (fl_rdiv 100 (fl_radd 1 (fdiv g l))) = Fin r)"
proof (cases "l = 0")
  case True
  then show ?thesis by (cases "g = 0") (auto simp: fdiv_def)
next
  case False
  assume a: "0 \<le> g" "0 \<le> l"
  then have "0 < 1 + g / l" using False by (simp add: add_pos_nonneg)
  moreover have "100 / (1 + g / l) \<le> 100" using a False
    by (simp add: divide_le_eq add_pos_nonneg)
  moreover have "0 \<le> 100 / (1 + g / l)" using a by simp
  ultimately show ?thesis using False by (auto simp: fdiv_def)
qed

lemma rsi_zero_loss:
  "0 \<le> g \<Longrightarrow> rsi_of_rs (rs_of (Some g) (Some 0)) = (if g = 0 then None else Some 100)"
  by (auto simp: rsi_of_rs_def rs_of_def fdiv_def)

lemma rising_avg_loss: "avg_loss rising_closes ! 14 = Some 0"
  by (simp add: avg_loss_def rolling_mean_def rising_closes_def diff_def loss_of_def)

lemma rising_avg_gain: "avg_gain rising_closes ! 14 = Some 1"
  by (simp add: avg_gain_def rolling_mean_def rising_closes_def diff_def gain_of_def)

text \<open>
  C4. For every price series and every index the indicator engine computes the RSI cell
  without raising.  Where the 14-period average loss is zero, the cell is undefined (NaN)
  if the average gain is zero as well, and it is 100 if the average gain is positive: the
  quotient of a positive gain and a zero loss is an infinity, not an error, and
  \<open>100 - 100 / (1 + rs)\<close> is then 100.
\<close>

theorem rsi_at_zero_average_loss:
  "i < length df \<Longrightarrow> avg_loss (map close df) ! i = Some 0 \<Longrightarrow>
     rsi (calculate_technical_indicators df ! i)
       = (if avg_gain (map close df) ! i = Some 0 then None else Some 100)"
proof -
  assume a: "i < length df" "avg_loss (map close df) ! i = Some 0"
  then obtain g where g: "0 \<le> g" "avg_gain (map close df) ! i = Some g"
    using avg_gain_defined [of i "map close df" 0] by auto
  show ?thesis
    using a g by (simp add: calc_rsi_nth rsi_column_nth rsi_zero_loss)
qed

theorem rsi_at_zero_average_loss_counterexample:
  "avg_loss (map close rising_frame) ! 14 = Some 0 \<and>
   rsi (calculate_technical_indicators rising_frame ! 14) = Some 100"
proof -
  have c: "map close rising_frame = rising_closes"
    by (simp add: rising_frame_def raw_rows_close)
  have l: "length rising_frame = 15"
    by (simp add: rising_frame_def rising_closes_def)
  show ?thesis
    using rising_avg_loss rising_avg_gain
    by (simp add: c l calc_rsi_nth rsi_column_nth rising_closes_def rsi_zero_loss)
qed

theorem rsi_at_zero_average_loss_witness:
  "(14::nat) < length rising_frame \<and> avg_loss (map close rising_frame) ! 14 = Some 0 \<and>
   rsi (calculate_technical_indicators rising_frame ! 14)
     = (if avg_gain (map close rising_frame) ! 14 = Some 0 then None else Some 100)"
proof -
  have c: "map close rising_frame = rising_closes"
    by (simp add: rising_frame_def raw_rows_close)
  have l: "(14::nat) < length rising_frame"
    by (simp add: rising_frame_def rising_closes_def)
  have z: "avg_loss (map close rising_frame) ! 14 = Some 0"
    using rising_avg_loss by (simp add: c)
  show ?thesis using l z rsi_at_zero_average_loss [OF l z] by simp
qed


subsection \<open>The two scans agree rule by rule\<close>

lemma last_take_Suc: "i < length df \<Longrightarrow> last (take (Suc i) df) = df ! i"
  by (simp add: take_Suc_conv_app_nth)

lemma latest_of_take: "i < length df \<Longrightarrow> latest_of (take (Suc i) df) = df ! i"
  by (simp add: latest_of_def last_take_Suc)

lemma prev_of_take:
  "i < length df \<Longrightarrow> 0 < i \<Longrightarrow> prev_of (take (Suc i) df) = bt_prev_row df i"
  by (simp add: prev_of_def bt_prev_row_def)

lemma recent_window_of_take:
  "i < length df \<Longrightarrow> recent_window_of (take (Suc i) df) window = bt_recent_window df window i"
  by (simp add: recent_window_of_def bt_recent_window_def)

lemma volume_confirmed_take:
  "i < length df \<Longrightarrow> 0 < i \<Longrightarrow> 0 < window \<Longrightarrow>
     volume_confirmed (take (Suc i) df) window = bt_volume_confirmed df window i"
proof -
  assume a: "i < length df" "0 < i" "0 < window"
  have "length (bt_recent_window df window i) > 1"
    using a by (auto simp: bt_recent_window_def)
  then show ?thesis
    using a by (auto simp: volume_confirmed_def bt_volume_confirmed_def Let_def
        recent_window_of_take latest_of_take)
qed

lemma cell_cmp_notna:
  "cell_gt a b \<Longrightarrow> notna a \<and> notna b"
  "cell_lt a b \<Longrightarrow> notna a \<and> notna b"
  "cell_le a b \<Longrightarrow> notna a \<and> notna b"
  "cell_ge a b \<Longrightarrow> notna a \<and> notna b"
  by (auto simp: cell_gt_def cell_lt_def cell_le_def cell_ge_def notna_def split: option.splits)

lemma cell_gt_lt_excl: "cell_gt a b \<Longrightarrow> cell_lt a b \<Longrightarrow> False"
  by (auto simp: cell_gt_def cell_lt_def split: option.splits)

lemma ma_cross_take:
  "i < length df \<Longrightarrow> 0 < i \<Longrightarrow> 0 < window \<Longrightarrow>
     dts_golden_cross (take (Suc i) df) window @ dts_death_cross (take (Suc i) df) window
       = dtsb_ma_cross df window i"
  unfolding dts_golden_cross_def dts_death_cross_def dtsb_ma_cross_def Let_def
  by (auto simp: latest_of_take prev_of_take volume_confirmed_take
      dest: cell_cmp_notna cell_gt_lt_excl)

lemma rsi_take:
  "i < length df \<Longrightarrow> dts_rsi (take (Suc i) df) window = dtsb_rsi df window i"
  by (simp add: dts_rsi_def dtsb_rsi_def Let_def split_def latest_of_take)

lemma macd_take:
  "i < length df \<Longrightarrow> 0 < i \<Longrightarrow> dts_macd (take (Suc i) df) window = dtsb_macd df i"
  unfolding dts_macd_def dtsb_macd_def Let_def
  by (auto simp: latest_of_take prev_of_take dest: cell_cmp_notna cell_gt_lt_excl)

lemma day_signals_types:
  "s \<in> set (day_signals df window i) \<Longrightarrow> signal_type s = ''buy'' \<or> signal_type s = ''sell''"
proof -
  have 1: "\<And>s. s \<in> set (dtsb_ma_cross df window i) \<Longrightarrow>
             signal_type s = ''buy'' \<or> signal_type s = ''sell''"
    by (auto simp: dtsb_ma_cross_def Let_def split: if_splits)
  have 2: "\<And>s. s \<in> set (dtsb_rsi df window i) \<Longrightarrow>
             signal_type s = ''buy'' \<or> signal_type s = ''sell''"
    by (auto simp: dtsb_rsi_def Let_def split: if_splits prod.splits)
  have 3: "\<And>s. s \<in> set (dtsb_macd df i) \<Longrightarrow>
             signal_type s = ''buy'' \<or> signal_type s = ''sell''"
    by (auto simp: dtsb_macd_def Let_def split: if_splits)
  assume "s \<in> set (day_signals df window i)"
  then show ?thesis using 1 2 3 by (auto simp: day_signals_def)
qed

lemma filter_day_signals:
  "filter (\<lambda>s. signal_type s \<noteq> ''hold'') (day_signals df window i) = day_signals df window i"
  by (auto simp: filter_id_conv dest!: day_signals_types)

lemma detect_latest_take:
  "30 \<le> i \<Longrightarrow> i < length df \<Longrightarrow> 0 < window \<Longrightarrow>
     detect_trading_signals (take (Suc i) df) window =
       (if day_signals df window i = [] then [dts_hold (take (Suc i) df)]
        else day_signals df window i)"
proof -
  assume a: "30 \<le> i" "i < length df" "0 < window"
  have "dts_golden_cross (take (Suc i) df) window @ dts_death_cross (take (Suc i) df) window
          @ dts_rsi (take (Suc i) df) window @ dts_macd (take (Suc i) df) window
        = day_signals df window i"
    using a ma_cross_take [of i df window] rsi_take [of i df window] macd_take [of i df window]
    by (simp add: day_signals_def)
  then show ?thesis using a by (simp add: detect_trading_signals_def Let_def)
qed

lemma filter_detect_latest_take:
  "30 \<le> i \<Longrightarrow> i < length df \<Longrightarrow> 0 < window \<Longrightarrow>
     filter (\<lambda>s. signal_type s \<noteq> ''hold'') (detect_trading_signals (take (Suc i) df) window)
       = day_signals df window i"
  by (simp add: detect_latest_take filter_day_signals dts_hold_def Let_def)

subsection \<open>Cells of the computed frame\<close>

lemma calc_nth_cells:
  assumes "i < length df"
  shows "ma5 (calculate_technical_indicators df ! i) = rolling_mean 5 (map close df) ! i"
    and "ma30 (calculate_technical_indicators df ! i) = rolling_mean 30 (map close df) ! i"
    and "macd (calculate_technical_indicators df ! i) = Some (macd_line (map close df) ! i)"
    and "macd_signal (calculate_technical_indicators df ! i)
           = Some (ewm_mean 9 (macd_line (map close df)) ! i)"
    and "date (calculate_technical_indicators df ! i) = date (df ! i)"
    and "close (calculate_technical_indicators df ! i) = close (df ! i)"
    and "volume (calculate_technical_indicators df ! i) = volume (df ! i)"
proof -
  have l: "i < length (calculate_technical_indicators df)" using assms by simp
  have n: "\<And>f. f (calculate_technical_indicators df ! i)
                = map f (calculate_technical_indicators df) ! i"
    using l by simp
  have ml: "length (macd_line (map close df)) = length df"
    by (simp add: macd_line_def)
  show "ma5 (calculate_technical_indicators df ! i) = rolling_mean 5 (map close df) ! i"
    unfolding n [of ma5] calc_ma5 ..
  show "ma30 (calculate_technical_indicators df ! i) = rolling_mean 30 (map close df) ! i"
    unfolding n [of ma30] calc_ma30 ..
  show "macd (calculate_technical_indicators df ! i) = Some (macd_line (map close df) ! i)"
    unfolding n [of macd] calc_macd using assms ml by simp
  show "macd_signal (calculate_technical_indicators df ! i)
           = Some (ewm_mean 9 (macd_line (map close df)) ! i)"
    unfolding n [of macd_signal] calc_macd_signal using assms ml by simp
  show "date (calculate_technical_indicators df ! i) = date (df ! i)"
    unfolding n [of date] calc_date using assms by simp
  show "close (calculate_technical_indicators df ! i) = close (df ! i)"
    unfolding n [of close] calc_close using assms by simp
  show "volume (calculate_technical_indicators df ! i) = volume (df ! i)"
    unfolding n [of volume] calc_volume using assms by simp
qed

subsection \<open>The constant series\<close>

lemma flat_frame_facts:
  "length flat_frame = 31" "map close flat_frame = flat_closes"
  by (simp add: flat_frame_def flat_closes_def) (simp add: flat_frame_def raw_rows_close)

lemma flat_ma5: "rolling_mean 5 flat_closes ! 30 = Some 100"
  by (simp add: rolling_mean_def flat_closes_def)

lemma flat_ma30: "rolling_mean 30 flat_closes ! 30 = Some 100"
  by (simp add: rolling_mean_def flat_closes_def)

lemma flat_rsi: "rsi_column flat_closes ! 30 = None"
  by (simp add: rsi_column_def rolling_mean_def flat_closes_def diff_def Let_def
      gain_of_def loss_of_def rs_of_def rsi_of_rs_def fdiv_def)

lemma flat_ewm12: "ewm_mean 12 flat_closes = flat_closes"
  by (simp add: flat_closes_def)

lemma flat_ewm26: "ewm_mean 26 flat_closes = flat_closes"
  by (simp add: flat_closes_def)

lemma flat_macd: "macd_line flat_closes = map (\<lambda>_. 0) flat_closes"
  unfolding macd_line_def flat_ewm12 flat_ewm26 by (simp add: flat_closes_def)

lemma flat_macd_30: "macd_line flat_closes ! 30 = 0"
  unfolding flat_macd by (simp add: flat_closes_def)

lemma flat_signal_30: "ewm_mean 9 (macd_line flat_closes) ! 30 = 0"
  unfolding flat_macd by (simp add: flat_closes_def)

lemma flat_day_30:
  "day_signals (calculate_technical_indicators flat_frame) 5 30 = []"
proof -
  have i: "30 < length flat_frame" by (simp add: flat_frame_facts)
  note c = calc_nth_cells [OF i] calc_rsi_nth [OF i]
  have 1: "dtsb_ma_cross (calculate_technical_indicators flat_frame) 5 30 = []"
    by (simp add: dtsb_ma_cross_def Let_def c flat_frame_facts flat_ma5 flat_ma30
        cell_gt_def cell_lt_def)
  have 2: "dtsb_rsi (calculate_technical_indicators flat_frame) 5 30 = []"
    by (simp add: dtsb_rsi_def Let_def c flat_frame_facts flat_rsi notna_def)
  have 3: "dtsb_macd (calculate_technical_indicators flat_frame) 30 = []"
    by (simp add: dtsb_macd_def Let_def c flat_frame_facts flat_macd_30 flat_signal_30
        cell_gt_def cell_lt_def)
  show ?thesis by (simp add: day_signals_def 1 2 3)
qed

text \<open>
  C1. For every frame and every window of at least one day, the full-history scan returns
  the signals that the latest-day detector returns on the frame truncated after every
  index from 30 on, concatenated in date order, once the hold signals are removed from
  them: the latest-day detector adds a hold signal on a day on which no rule fires, and the
  full-history scan, which looks for buy and sell signals, adds none.
\<close>

theorem scan_modes_agree_up_to_hold:
  "0 < window \<Longrightarrow>
     detect_trading_signals_for_backtest df window =
       concat (map (\<lambda>i. filter (\<lambda>s. signal_type s \<noteq> ''hold'')
                          (detect_trading_signals (take (i + 1) df) window))
                 [30..<length df])"
proof -
  assume w: "0 < window"
  have "map (\<lambda>i. filter (\<lambda>s. signal_type s \<noteq> ''hold'')
                   (detect_trading_signals (take (i + 1) df) window)) [30..<length df]
        = map (day_signals df window) [30..<length df]"
    using w by (intro map_cong refl) (simp add: filter_detect_latest_take)
  then have "concat (map (\<lambda>i. filter (\<lambda>s. signal_type s \<noteq> ''hold'')
                   (detect_trading_signals (take (i + 1) df) window)) [30..<length df])
        = concat (map (day_signals df window) [30..<length df])"
    by (rule arg_cong)
  moreover have "detect_trading_signals_for_backtest df window
        = concat (map (day_signals df window) [30..<length df])"
    by (simp add: detect_trading_signals_for_backtest_def)
  ultimately show ?thesis by (rule ssubst)
qed

theorem scan_modes_counterexample:
  "detect_trading_signals_for_backtest (calculate_technical_indicators flat_frame) 5 = [] \<and>
   map signal_type (latest_scan (calculate_technical_indicators flat_frame) 5) = [''hold'']"
proof -
  note l = flat_frame_facts(1)
  have u: "[30..<31] = [30::nat]" by (simp add: upt_rec_numeral)
  have a: "detect_trading_signals_for_backtest (calculate_technical_indicators flat_frame) 5 = []"
    by (simp add: detect_trading_signals_for_backtest_def l u flat_day_30)
  have "detect_trading_signals (take (Suc 30) (calculate_technical_indicators flat_frame)) 5
          = [dts_hold (take (Suc 30) (calculate_technical_indicators flat_frame))]"
    using detect_latest_take [of 30 "calculate_technical_indicators flat_frame" 5]
    by (simp add: l flat_day_30)
  then have b: "map signal_type (latest_scan (calculate_technical_indicators flat_frame) 5)
                  = [''hold'']"
    by (simp add: latest_scan_def l u dts_hold_def Let_def)
  show ?thesis using a b by simp
qed

subsection \<open>Trade dates in a run\<close>

lemma calc_macd_histogram_nth:
  "i < length df \<Longrightarrow> macd_histogram (calculate_technical_indicators df ! i)
     = Some (macd_line (map close df) ! i - ewm_mean 9 (macd_line (map close df)) ! i)"
proof -
  assume a: "i < length df"
  have ml: "length (macd_line (map close df)) = length df"
    by (simp add: macd_line_def)
  have "macd_histogram (calculate_technical_indicators df ! i)
          = map macd_histogram (calculate_technical_indicators df) ! i"
    using a by simp
  then show ?thesis
    unfolding calc_macd_histogram using a ml by (simp add: col_sub_def)
qed

lemma finish_run_trades:
  "sum_list (map profit ts) = 0 \<Longrightarrow> run_trades (finish req ts) = ts"
  using calculate_metrics_returns [of "initial_capital req" "end_date req" "start_date req" ts
      "calculate_equity_curve ts (initial_capital req) (start_date req) (end_date req)"]
    one_less_double_overflow
  by (cases "initial_capital req \<le> 0") (auto simp: finish_def run_trades_def Let_def)

lemma run_trades_finish_subset: "set (run_trades (finish req ts)) \<subseteq> set ts"
  by (auto simp: finish_def run_trades_def Let_def split: sum.splits)

lemma signal_run_trades:
  "run_trades (backtest_signal_based_strategy df0 req) = [] \<or>
   (calculate_technical_indicators df0 \<noteq> [] \<and>
    set (run_trades (backtest_signal_based_strategy df0 req)) \<subseteq>
      set (fst (close_remaining (calculate_technical_indicators df0)
                 (\<lambda>p. Entry_reason_end (pos_label p))
                 (signal_loop req
                    (detect_trading_signals_for_backtest (calculate_technical_indicators df0) 5)
                    (calculate_technical_indicators df0)))))"
proof (cases "df0 = [] \<or> length (calculate_technical_indicators df0) < 30
      \<or> detect_trading_signals_for_backtest (calculate_technical_indicators df0) 5 = []")
  case True
  then show ?thesis
    by (auto simp: backtest_signal_based_strategy_def Let_def run_trades_def empty_result_def)
next
  case False
  then have "length (calculate_technical_indicators df0) \<noteq> 0" by simp
  then have ne: "calculate_technical_indicators df0 \<noteq> []" by (simp del: length_calc)
  have "backtest_signal_based_strategy df0 req =
          finish req (fst (close_remaining (calculate_technical_indicators df0)
                 (\<lambda>p. Entry_reason_end (pos_label p))
                 (signal_loop req
                    (detect_trading_signals_for_backtest (calculate_technical_indicators df0) 5)
                    (calculate_technical_indicators df0))))"
    using False by (simp add: backtest_signal_based_strategy_def Let_def split_def)
  then show ?thesis
    using ne run_trades_finish_subset by simp
qed

lemma sorted_le_last: "sorted (xs :: int list) \<Longrightarrow> x \<in> set xs \<Longrightarrow> x \<le> last xs"
  by (induction xs) auto

lemma dates_ok_signal_loop:
  assumes "sorted (map date df)" "df \<noteq> []"
  shows "dates_ok (date (last df)) (signal_loop req sd df)"
proof -
  have h: "\<forall>r\<in>set df. date (hd df) \<le> date r"
    using assms by (cases df) auto
  have l: "\<forall>r\<in>set df. date r \<le> date (last df)"
  proof
    fix r assume "r \<in> set df"
    then have "date r \<in> set (map date df)" by simp
    then have "date r \<le> last (map date df)" using assms(1) by (rule sorted_le_last [rotated])
    then show "date r \<le> date (last df)" using assms(2) by (simp add: last_map)
  qed
  have i: "dates_ok (date (hd df)) (initial_state req :: reason bt_state)"
    by (simp add: dates_ok_def initial_state_def)
  have hl: "date (hd df) \<le> date (last df)" using l assms by simp
  have "\<forall>r\<in>set df. date (hd df) \<le> date r \<and> date r \<le> date (last df)"
    using h l by blast
  then show ?thesis
    unfolding signal_loop_def
    using dates_ok_foldl_signal_day [OF assms(1) _ hl i] by blast
qed

lemma dates_ok_close_remaining:
  "dates_ok (date (last df)) st \<Longrightarrow> t \<in> set (fst (close_remaining df lbl st)) \<Longrightarrow>
     buy_date t \<le> sell_date t"
  by (auto simp: close_remaining_def dates_ok_def make_trade_def split: option.splits)

subsection \<open>The series that falls on its last day\<close>

lemma drop_frame_facts:
  "length drop_frame = 31" "map close drop_frame = drop_closes"
  by (simp add: drop_frame_def drop_closes_def) (simp add: drop_frame_def raw_rows_close)

lemma drop_ma5: "rolling_mean 5 drop_closes ! 30 = Some 98"
  "rolling_mean 5 drop_closes ! 29 = Some 100"
  by (simp_all add: rolling_mean_def drop_closes_def)

lemma drop_ma30: "rolling_mean 30 drop_closes ! 30 = Some (299 / 3)"
  "rolling_mean 30 drop_closes ! 29 = Some 100"
  by (simp_all add: rolling_mean_def drop_closes_def)

lemma drop_rsi: "rsi_column drop_closes ! 30 = Some 0" "rsi_column drop_closes ! 25 = None"
  by (simp_all add: rsi_column_def rolling_mean_def drop_closes_def diff_def Let_def
      gain_of_def loss_of_def rs_of_def rsi_of_rs_def fdiv_def)

lemma drop_macd: "macd_line drop_closes ! 30 = - 280 / 351" "macd_line drop_closes ! 29 = 0"
  by (simp_all add: macd_line_def drop_closes_def)

lemma drop_signal: "ewm_mean 9 (macd_line drop_closes) ! 30 = - 56 / 351"
  "ewm_mean 9 (macd_line drop_closes) ! 29 = 0"
  by (simp_all add: macd_line_def drop_closes_def)


lemma list31:
  assumes "length xs = 31"
  shows "xs = [xs ! 0, xs ! 1, xs ! 2, xs ! 3, xs ! 4, xs ! 5, xs ! 6, xs ! 7, xs ! 8, xs ! 9,
               xs ! 10, xs ! 11, xs ! 12, xs ! 13, xs ! 14, xs ! 15, xs ! 16, xs ! 17, xs ! 18,
               xs ! 19, xs ! 20, xs ! 21, xs ! 22, xs ! 23, xs ! 24, xs ! 25, xs ! 26, xs ! 27,
               xs ! 28, xs ! 29, xs ! 30]"
  using assms by (auto simp: eval_nat_numeral length_Suc_conv)

text \<open>The rows of the computed frame, by index.\<close>

lemma drop_rows:
  "calculate_technical_indicators drop_frame =
     [calculate_technical_indicators drop_frame ! 0, calculate_technical_indicators drop_frame ! 1,
      calculate_technical_indicators drop_frame ! 2, calculate_technical_indicators drop_frame ! 3,
      calculate_technical_indicators drop_frame ! 4, calculate_technical_indicators drop_frame ! 5,
      calculate_technical_indicators drop_frame ! 6, calculate_technical_indicators drop_frame ! 7,
      calculate_technical_indicators drop_frame ! 8, calculate_technical_indicators drop_frame ! 9,
      calculate_technical_indicators drop_frame ! 10, calculate_technical_indicators drop_frame ! 11,
      calculate_technical_indicators drop_frame ! 12, calculate_technical_indicators drop_frame ! 13,
      calculate_technical_indicators drop_frame ! 14, calculate_technical_indicators drop_frame ! 15,
      calculate_technical_indicators drop_frame ! 16, calculate_technical_indicators drop_frame ! 17,
      calculate_technical_indicators drop_frame ! 18, calculate_technical_indicators drop_frame ! 19,
      calculate_technical_indicators drop_frame ! 20, calculate_technical_indicators drop_frame ! 21,
      calculate_technical_indicators drop_frame ! 22, calculate_technical_indicators drop_frame ! 23,
      calculate_technical_indicators drop_frame ! 24, calculate_technical_indicators drop_frame ! 25,
      calculate_technical_indicators drop_frame ! 26, calculate_technical_indicators drop_frame ! 27,
      calculate_technical_indicators drop_frame ! 28, calculate_technical_indicators drop_frame ! 29,
      calculate_technical_indicators drop_frame ! 30]"
proof -
  have "length (calculate_technical_indicators drop_frame) = 31"
    by (simp add: drop_frame_facts)
  then show ?thesis by (rule list31)
qed

lemma raw_rows_volume: "map volume (raw_rows d cs) = map (\<lambda>_. 1000) cs"
  by (induction cs arbitrary: d) (simp_all add: raw_row_def)

lemma drop_cells_all:
  assumes "k < 31"
  shows "close (calculate_technical_indicators drop_frame ! k) = drop_closes ! k"
    and "volume (calculate_technical_indicators drop_frame ! k) = 1000"
    and "date (calculate_technical_indicators drop_frame ! k) = int k"
proof -
  have k: "k < length drop_frame" using assms by (simp add: drop_frame_facts)
  have l: "length drop_closes = 31" by (simp add: drop_closes_def)
  show "close (calculate_technical_indicators drop_frame ! k) = drop_closes ! k"
    using calc_nth_cells(6) [OF k] k nth_map [of k drop_frame close]
    by (simp add: drop_frame_facts)
  have "volume (drop_frame ! k) = map volume drop_frame ! k" using k by simp
  also have "\<dots> = 1000" using assms l
    by (simp add: drop_frame_def raw_rows_volume)
  finally show "volume (calculate_technical_indicators drop_frame ! k) = 1000"
    using calc_nth_cells(7) [OF k] by simp
  have "date (drop_frame ! k) = map date drop_frame ! k" using k by simp
  also have "\<dots> = int k" using assms l
    by (simp add: drop_frame_def raw_rows_date)
  finally show "date (calculate_technical_indicators drop_frame ! k) = int k"
    using calc_nth_cells(5) [OF k] by simp
qed

lemma drop_cells_30:
  "ma5 (calculate_technical_indicators drop_frame ! 30) = Some 98"
  "ma30 (calculate_technical_indicators drop_frame ! 30) = Some (299 / 3)"
  "rsi (calculate_technical_indicators drop_frame ! 30) = Some 0"
  "macd (calculate_technical_indicators drop_frame ! 30) = Some (- 280 / 351)"
  "macd_signal (calculate_technical_indicators drop_frame ! 30) = Some (- 56 / 351)"
  "macd_histogram (calculate_technical_indicators drop_frame ! 30) = Some (- 224 / 351)"
proof -
  have i: "30 < length drop_frame" by (simp add: drop_frame_facts)
  note c = calc_nth_cells [OF i] calc_rsi_nth [OF i] calc_macd_histogram_nth [OF i]
  show "ma5 (calculate_technical_indicators drop_frame ! 30) = Some 98"
    "ma30 (calculate_technical_indicators drop_frame ! 30) = Some (299 / 3)"
    "rsi (calculate_technical_indicators drop_frame ! 30) = Some 0"
    "macd (calculate_technical_indicators drop_frame ! 30) = Some (- 280 / 351)"
    "macd_signal (calculate_technical_indicators drop_frame ! 30) = Some (- 56 / 351)"
    "macd_histogram (calculate_technical_indicators drop_frame ! 30) = Some (- 224 / 351)"
    by (simp_all add: c drop_frame_facts drop_ma5 drop_ma30 drop_rsi drop_macd drop_signal)
qed

lemma drop_cells_29:
  "ma5 (calculate_technical_indicators drop_frame ! 29) = Some 100"
  "ma30 (calculate_technical_indicators drop_frame ! 29) = Some 100"
  "macd (calculate_technical_indicators drop_frame ! 29) = Some 0"
  "macd_signal (calculate_technical_indicators drop_frame ! 29) = Some 0"
  "macd_histogram (calculate_technical_indicators drop_frame ! 29) = Some 0"
proof -
  have i: "29 < length drop_frame" by (simp add: drop_frame_facts)
  note c = calc_nth_cells [OF i] calc_macd_histogram_nth [OF i]
  show "ma5 (calculate_technical_indicators drop_frame ! 29) = Some 100"
    "ma30 (calculate_technical_indicators drop_frame ! 29) = Some 100"
    "macd (calculate_technical_indicators drop_frame ! 29) = Some 0"
    "macd_signal (calculate_technical_indicators drop_frame ! 29) = Some 0"
    "macd_histogram (calculate_technical_indicators drop_frame ! 29) = Some 0"
    by (simp_all add: c drop_frame_facts drop_ma5 drop_ma30 drop_macd drop_signal)
qed

lemma drop_cell_25: "rsi (calculate_technical_indicators drop_frame ! 25) = None"
proof -
  have i: "25 < length drop_frame" by (simp add: drop_frame_facts)
  show ?thesis by (simp add: calc_rsi_nth [OF i] drop_frame_facts drop_rsi)
qed

lemma drop_day_30_rsi:
  "dtsb_rsi (calculate_technical_indicators drop_frame) 5 30 =
     [\<lparr> signal_type = ''buy'', signal_strength = 0.9, signal_reason = RSI_oversold 0 False,
         signal_date = 30, indicators_used = [RSI] \<rparr>]"
proof -
  define R where "R = (\<lambda>k. calculate_technical_indicators drop_frame ! k)"
  have rows: "calculate_technical_indicators drop_frame =
      [R 0, R 1, R 2, R 3, R 4, R 5, R 6, R 7, R 8, R 9, R 10, R 11, R 12, R 13,
       R 14, R 15, R 16, R 17, R 18, R 19, R 20, R 21, R 22, R 23, R 24, R 25, R 26, R 27, R 28,
       R 29, R 30]"
    unfolding R_def by (rule drop_rows)
  have cells: "close (R 30) = 90" "close (R 25) = 100"
    "date (R 30) = 30"
    "rsi (R 30) = Some 0" "rsi (R 25) = None"
    unfolding R_def
    by (simp_all add: drop_cells_all drop_cells_30 drop_cells_29 drop_cell_25 drop_closes_def)
  have dv: "check_rsi_divergence (take (30 + 1) (calculate_technical_indicators drop_frame)) 5 = (False, [])"
    unfolding rows
    by (simp add: check_rsi_divergence_def cells fdiv_def cell_minus_def cell_gt_def cell_lt_def Let_def)
  have row: "calculate_technical_indicators drop_frame ! 30 = R 30" by (simp add: R_def)
  show ?thesis
    unfolding dtsb_rsi_def dv row
    by (simp add: cells notna_def calculate_rsi_signal_strength_def)
qed


lemma drop_ma_strength:
  fixes R :: "nat \<Rightarrow> row"
  assumes cells: "close (R 30) = 90" "close (R 25) = 100"
    "volume (R 25) = 1000" "volume (R 26) = 1000" "volume (R 27) = 1000"
    "volume (R 28) = 1000" "volume (R 29) = 1000" "volume (R 30) = 1000"
    "ma5 (R 30) = Some 98" "ma30 (R 30) = Some (299 / 3)"
  shows "calculate_ma_cross_strength
           (take (30 + 1) [R 0, R 1, R 2, R 3, R 4, R 5, R 6, R 7, R 8, R 9, R 10, R 11, R 12,
              R 13, R 14, R 15, R 16, R 17, R 18, R 19, R 20, R 21, R 22, R 23, R 24, R 25, R 26,
              R 27, R 28, R 29, R 30]) 5 = 0.6"
    and "bt_volume_confirmed [R 0, R 1, R 2, R 3, R 4, R 5, R 6, R 7, R 8, R 9, R 10, R 11, R 12,
              R 13, R 14, R 15, R 16, R 17, R 18, R 19, R 20, R 21, R 22, R 23, R 24, R 25, R 26,
              R 27, R 28, R 29, R 30] 5 30 = False"
proof -
  let ?D = "[R 0, R 1, R 2, R 3, R 4, R 5, R 6, R 7, R 8, R 9, R 10, R 11, R 12,
              R 13, R 14, R 15, R 16, R 17, R 18, R 19, R 20, R 21, R 22, R 23, R 24, R 25, R 26,
              R 27, R 28, R 29, R 30]"
  let ?W = "[R 25, R 26, R 27, R 28, R 29]"
  have t: "take (30 + 1) ?D = ?D" by simp
  have d: "butlast (drop (length ?D - (5 + 1)) ?D) = ?W" by simp
  have l: "last ?D = R 30" "(length ?D < 5 + 1) = False" by simp_all
  have w: "(?W \<noteq> []) = True" "(3 \<le> length ?W) = True" "hd ?W = R 25" by simp_all
  have avg: "mean (map volume ?W) = 1000" by (simp add: mean_def cells)
  have pt: "fl_gt (fl_abs (fdiv (close (R 30) - close (R 25)) (close (R 25)))) 0.02 = True"
    by (simp add: cells fdiv_def)
  have sep: "fdiv \<bar>the (ma5 (R 30)) - the (ma30 (R 30))\<bar> (the (ma30 (R 30))) = Fin (5 / 299)"
    by (simp add: cells fdiv_def)
  have nn: "(notna (ma5 (R 30)) \<and> notna (ma30 (R 30))) = True" by (simp add: cells notna_def)
  have v: "volume (R 30) = 1000" by (rule cells)
  show "calculate_ma_cross_strength (take (30 + 1) ?D) 5 = 0.6"
    unfolding t calculate_ma_cross_strength_def Let_def d l w avg pt sep nn v
    by simp
  have rw: "butlast (bt_recent_window ?D 5 30) = ?W"
    "(1 < length (bt_recent_window ?D 5 30)) = True" "?D ! 30 = R 30"
    by (simp_all add: bt_recent_window_def)
  show "bt_volume_confirmed ?D 5 30 = False"
    unfolding bt_volume_confirmed_def Let_def rw avg v
    by simp
qed

lemma drop_day_30_ma:
  "dtsb_ma_cross (calculate_technical_indicators drop_frame) 5 30 =
     [\<lparr> signal_type = ''sell'', signal_strength = 0.6, signal_reason = Death_cross False,
         signal_date = 30, indicators_used = [MA5, MA30] \<rparr>]"
proof -
  define R where "R = (\<lambda>k. calculate_technical_indicators drop_frame ! k)"
  have rows: "calculate_technical_indicators drop_frame =
      [R 0, R 1, R 2, R 3, R 4, R 5, R 6, R 7, R 8, R 9, R 10, R 11, R 12, R 13,
       R 14, R 15, R 16, R 17, R 18, R 19, R 20, R 21, R 22, R 23, R 24, R 25, R 26, R 27, R 28,
       R 29, R 30]"
    unfolding R_def by (rule drop_rows)
  have cells: "close (R 30) = 90" "close (R 25) = 100"
    "volume (R 25) = 1000" "volume (R 26) = 1000" "volume (R 27) = 1000"
    "volume (R 28) = 1000" "volume (R 29) = 1000" "volume (R 30) = 1000"
    "ma5 (R 30) = Some 98" "ma30 (R 30) = Some (299 / 3)"
    unfolding R_def
    by (simp_all add: drop_cells_all drop_cells_30 drop_closes_def)
  have more: "date (R 30) = 30" "ma5 (R 29) = Some 100" "ma30 (R 29) = Some 100"
    unfolding R_def
    by (simp_all add: drop_cells_all drop_cells_29)
  note sv = drop_ma_strength [of R, OF cells, folded rows]
  have row: "calculate_technical_indicators drop_frame ! 30 = R 30"
    "bt_prev_row (calculate_technical_indicators drop_frame) 30 = R 29"
    by (simp_all add: R_def bt_prev_row_def)
  show ?thesis
    unfolding dtsb_ma_cross_def Let_def sv row
    by (simp add: cells more notna_def cell_gt_def cell_lt_def cell_le_def cell_ge_def)
qed

lemma drop_day_30_macd:
  "dtsb_macd (calculate_technical_indicators drop_frame) 30 =
     [\<lparr> signal_type = ''sell'', signal_strength = 0.8, signal_reason = MACD_cross_down True,
         signal_date = 30, indicators_used = [MACD] \<rparr>]"
proof -
  define R where "R = (\<lambda>k. calculate_technical_indicators drop_frame ! k)"
  have cells: "date (R 30) = 30"
    "macd (R 30) = Some (- 280 / 351)" "macd (R 29) = Some 0"
    "macd_signal (R 30) = Some (- 56 / 351)" "macd_signal (R 29) = Some 0"
    "macd_histogram (R 30) = Some (- 224 / 351)" "macd_histogram (R 29) = Some 0"
    unfolding R_def
    by (simp_all add: drop_cells_all drop_cells_30 drop_cells_29)
  have row: "calculate_technical_indicators drop_frame ! 30 = R 30"
    "bt_prev_row (calculate_technical_indicators drop_frame) 30 = R 29"
    by (simp_all add: R_def bt_prev_row_def)
  show ?thesis
    unfolding dtsb_macd_def Let_def row
    by (simp add: cells notna_def cell_gt_def cell_lt_def cell_le_def cell_ge_def)
qed

lemma drop_signals:
  "detect_trading_signals_for_backtest (calculate_technical_indicators drop_frame) 5 =
     [\<lparr> signal_type = ''sell'', signal_strength = 0.6, signal_reason = Death_cross False,
         signal_date = 30, indicators_used = [MA5, MA30] \<rparr>,
      \<lparr> signal_type = ''buy'', signal_strength = 0.9, signal_reason = RSI_oversold 0 False,
         signal_date = 30, indicators_used = [RSI] \<rparr>,
      \<lparr> signal_type = ''sell'', signal_strength = 0.8, signal_reason = MACD_cross_down True,
         signal_date = 30, indicators_used = [MACD] \<rparr>]"
proof -
  have u: "[30..<31] = [30::nat]" by (simp add: upt_rec_numeral)
  show ?thesis
    by (simp add: detect_trading_signals_for_backtest_def drop_frame_facts u day_signals_def
        drop_day_30_ma drop_day_30_rsi drop_day_30_macd)
qed

text \<open>The agreement of the two scans on the falling series, whose scan has three signals.\<close>

theorem scan_modes_agree_up_to_hold_witness:
  "(0::nat) < 5 \<and>
   concat (map (\<lambda>i. filter (\<lambda>s. signal_type s \<noteq> ''hold'')
                      (detect_trading_signals
                         (take (i + 1) (calculate_technical_indicators drop_frame)) 5))
             [30..<length (calculate_technical_indicators drop_frame)]) =
     [\<lparr> signal_type = ''sell'', signal_strength = 0.6, signal_reason = Death_cross False,
         signal_date = 30, indicators_used = [MA5, MA30] \<rparr>,
      \<lparr> signal_type = ''buy'', signal_strength = 0.9, signal_reason = RSI_oversold 0 False,
         signal_date = 30, indicators_used = [RSI] \<rparr>,
      \<lparr> signal_type = ''sell'', signal_strength = 0.8, signal_reason = MACD_cross_down True,
         signal_date = 30, indicators_used = [MACD] \<rparr>]"
  using scan_modes_agree_up_to_hold [of 5 "calculate_technical_indicators drop_frame"]
    drop_signals
  by simp

lemma signal_day_skip:
  "\<forall>s\<in>set el. signal_date s \<noteq> date r \<Longrightarrow> signal_day req el st r = st"
  by (simp add: signal_day_def Let_def filter_empty_conv)

lemma foldl_signal_day_skip:
  "\<forall>r\<in>set rows. \<forall>s\<in>set el. signal_date s \<noteq> date r \<Longrightarrow>
     foldl (signal_day req el) st rows = st"
  by (induction rows arbitrary: st) (simp_all add: signal_day_skip)

lemma drop_loop:
  "signal_loop default_request
     (detect_trading_signals_for_backtest (calculate_technical_indicators drop_frame) 5)
     (calculate_technical_indicators drop_frame)
   = \<lparr> trades = [drop_trade], capital = 100000, position = None, next_trade_id = 2 \<rparr>"
proof -
  let ?D = "calculate_technical_indicators drop_frame"
  let ?sd = "detect_trading_signals_for_backtest ?D 5"
  let ?el = "eligible default_request ?sd"
  have len: "length ?D = 31" by (simp add: drop_frame_facts)
  have el: "?el =
     [\<lparr> signal_type = ''sell'', signal_strength = 0.6, signal_reason = Death_cross False,
         signal_date = 30, indicators_used = [MA5, MA30] \<rparr>,
      \<lparr> signal_type = ''buy'', signal_strength = 0.9, signal_reason = RSI_oversold 0 False,
         signal_date = 30, indicators_used = [RSI] \<rparr>,
      \<lparr> signal_type = ''sell'', signal_strength = 0.8, signal_reason = MACD_cross_down True,
         signal_date = 30, indicators_used = [MACD] \<rparr>]"
    by (simp add: eligible_def default_request_def drop_signals)
  have split: "?D = take 30 ?D @ [?D ! 30]"
    using len take_Suc_conv_app_nth [of 30 ?D] by simp
  have early: "\<forall>r\<in>set (take 30 ?D). \<forall>s\<in>set ?el. signal_date s \<noteq> date r"
  proof
    fix r assume "r \<in> set (take 30 ?D)"
    then obtain k where k: "k < 30" "r = ?D ! k"
      using len by (auto simp: in_set_conv_nth)
    then have "date r = int k" using drop_cells_all(3) [of k] by simp
    then show "\<forall>s\<in>set ?el. signal_date s \<noteq> date r"
      using k(1) by (simp add: el)
  qed
  have d30: "date (?D ! 30) = 30" "close (?D ! 30) = 90"
    using drop_cells_all [of 30] by (simp_all add: drop_closes_def)
  have last_day: "signal_day default_request ?el (initial_state default_request) (?D ! 30)
      = \<lparr> trades = [drop_trade], capital = 100000, position = None, next_trade_id = 2 \<rparr>"
    unfolding el signal_day_def Let_def d30
    by (simp add: default_request_def initial_state_def process_signal_def buy_def sell_def
        hold_days_check_def drop_trade_def Let_def)
  have "signal_loop default_request ?sd ?D
      = foldl (signal_day default_request ?el) (initial_state default_request)
          (take 30 ?D @ [?D ! 30])"
    unfolding signal_loop_def using split by simp
  also have "\<dots> = signal_day default_request ?el (initial_state default_request) (?D ! 30)"
    by (simp add: foldl_signal_day_skip [OF early])
  finally show ?thesis using last_day by simp
qed

lemma drop_run:
  "run_trades (backtest_signal_based_strategy drop_frame default_request) = [drop_trade]"
proof -
  let ?D = "calculate_technical_indicators drop_frame"
  have ne: "drop_frame \<noteq> []" "\<not> length ?D < 30"
    "detect_trading_signals_for_backtest ?D 5 \<noteq> []"
    using drop_frame_facts(1) by (auto simp: drop_signals)
  have cr: "close_remaining ?D (\<lambda>p. Entry_reason_end (pos_label p))
              (signal_loop default_request (detect_trading_signals_for_backtest ?D 5) ?D)
            = ([drop_trade], 100000)"
    unfolding drop_loop by (simp add: close_remaining_def)
  have "backtest_signal_based_strategy drop_frame default_request
          = finish default_request [drop_trade]"
    unfolding backtest_signal_based_strategy_def Let_def using ne by (simp add: cr)
  moreover have "sum_list (map profit [drop_trade]) = 0"
    by (simp add: drop_trade_def make_trade_def)
  ultimately show ?thesis by (simp add: finish_run_trades)
qed

lemma drop_sorted: "sorted (map date drop_frame)"
  by (simp add: drop_frame_def drop_closes_def raw_row_def)

text \<open>
  C2. On a series whose dates are in ascending order, every trade that a run of the
  signal-based strategy records is sold on or after the day on which it was bought.  The
  two dates can be equal: a buy signal and a later sell signal of the same day open and
  close a position on that day, and a position bought on the last day is closed on it.
\<close>

theorem trades_sold_on_or_after_buy_date:
  "sorted (map date df0) \<Longrightarrow>
   t \<in> set (run_trades (backtest_signal_based_strategy df0 req)) \<Longrightarrow>
   buy_date t \<le> sell_date t"
proof -
  assume s: "sorted (map date df0)"
    and t: "t \<in> set (run_trades (backtest_signal_based_strategy df0 req))"
  let ?df = "calculate_technical_indicators df0"
  have ne: "?df \<noteq> []" and
    sub: "t \<in> set (fst (close_remaining ?df (\<lambda>p. Entry_reason_end (pos_label p))
                 (signal_loop req (detect_trading_signals_for_backtest ?df 5) ?df)))"
    using signal_run_trades [of df0 req] t by auto
  have "sorted (map date ?df)" using s by (simp add: calc_date)
  then have "dates_ok (date (last ?df))
               (signal_loop req (detect_trading_signals_for_backtest ?df 5) ?df)"
    using ne by (rule dates_ok_signal_loop)
  then show ?thesis using sub by (rule dates_ok_close_remaining)
qed

theorem same_day_trade_counterexample:
  "map trade_dates (run_trades (backtest_signal_based_strategy drop_frame default_request))
     = [(30, 30)]"
  by (simp add: drop_run trade_dates_def drop_trade_def make_trade_def)

theorem trades_sold_on_or_after_buy_date_witness:
  "sorted (map date drop_frame) \<and>
   drop_trade \<in> set (run_trades (backtest_signal_based_strategy drop_frame default_request)) \<and>
   buy_date drop_trade \<le> sell_date drop_trade"
proof -
  have m: "drop_trade \<in> set (run_trades (backtest_signal_based_strategy drop_frame default_request))"
    by (simp add: drop_run)
  show ?thesis
    using drop_sorted m trades_sold_on_or_after_buy_date [OF drop_sorted m] by simp
qed


subsection \<open>Runs with fewer shares than a lot\<close>

lemma lot_zero: "0 \<le> n \<Longrightarrow> n < 100 \<Longrightarrow> (n div 100) * 100 = (0::int)"
  by simp

lemma zero_ok_initial: "zero_ok (initial_capital req) (initial_state req)"
  by (simp add: zero_ok_def initial_state_def)

lemma zero_ok_buy:
  "0 \<le> shares_per_trade req \<Longrightarrow> shares_per_trade req < 100 \<Longrightarrow> zero_ok ic st \<Longrightarrow>
     zero_ok ic (buy req d price l st)"
  by (simp add: zero_ok_def buy_def Let_def)

lemma zero_ok_sell:
  "position st = Some p \<Longrightarrow> zero_ok ic st \<Longrightarrow> zero_ok ic (sell d price lbl p st)"
  by (auto simp: zero_ok_def sell_def make_trade_def)

lemma zero_ok_hold_days_check:
  "zero_ok ic st \<Longrightarrow> zero_ok ic (hold_days_check req d price lbl st)"
  by (auto simp: hold_days_check_def zero_ok_sell split: option.splits)

lemma zero_ok_process_signal:
  "0 \<le> shares_per_trade req \<Longrightarrow> shares_per_trade req < 100 \<Longrightarrow> zero_ok ic st \<Longrightarrow>
     zero_ok ic (process_signal req d price st sg)"
  by (auto simp: process_signal_def zero_ok_buy zero_ok_sell)

lemma zero_ok_foldl_process:
  "0 \<le> shares_per_trade req \<Longrightarrow> shares_per_trade req < 100 \<Longrightarrow> zero_ok ic st \<Longrightarrow>
     zero_ok ic (foldl (process_signal req d price) st sgs)"
  by (induction sgs arbitrary: st) (simp_all add: zero_ok_process_signal)

lemma zero_ok_signal_day:
  "0 \<le> shares_per_trade req \<Longrightarrow> shares_per_trade req < 100 \<Longrightarrow> zero_ok ic st \<Longrightarrow>
     zero_ok ic (signal_day req el st r)"
  by (simp add: signal_day_def Let_def zero_ok_hold_days_check zero_ok_foldl_process)

lemma zero_ok_foldl_signal_day:
  "0 \<le> shares_per_trade req \<Longrightarrow> shares_per_trade req < 100 \<Longrightarrow> zero_ok ic st \<Longrightarrow>
     zero_ok ic (foldl (signal_day req el) st rows)"
  by (induction rows arbitrary: st) (simp_all add: zero_ok_signal_day)

lemma zero_ok_signal_loop:
  "0 \<le> shares_per_trade req \<Longrightarrow> shares_per_trade req < 100 \<Longrightarrow>
     zero_ok (initial_capital req) (signal_loop req sd df)"
  by (simp add: signal_loop_def zero_ok_foldl_signal_day zero_ok_initial)

lemma zero_ok_ma_cross_trade:
  "0 \<le> shares_per_trade req \<Longrightarrow> shares_per_trade req < 100 \<Longrightarrow> zero_ok ic st \<Longrightarrow>
     zero_ok ic (ma_cross_trade req r pr st)"
  by (auto simp: ma_cross_trade_def zero_ok_buy zero_ok_sell)

lemma zero_ok_ma_cross_day:
  "0 \<le> shares_per_trade req \<Longrightarrow> shares_per_trade req < 100 \<Longrightarrow> zero_ok ic st \<Longrightarrow>
     zero_ok ic (ma_cross_day req df st i)"
  by (simp add: ma_cross_day_def Let_def zero_ok_hold_days_check zero_ok_ma_cross_trade)

lemma zero_ok_foldl_ma_cross_day:
  "0 \<le> shares_per_trade req \<Longrightarrow> shares_per_trade req < 100 \<Longrightarrow> zero_ok ic st \<Longrightarrow>
     zero_ok ic (foldl (ma_cross_day req df) st ks)"
  by (induction ks arbitrary: st) (simp_all add: zero_ok_ma_cross_day)

lemma zero_ok_ma_cross_loop:
  "0 \<le> shares_per_trade req \<Longrightarrow> shares_per_trade req < 100 \<Longrightarrow>
     zero_ok (initial_capital req) (ma_cross_loop req df)"
  by (simp add: ma_cross_loop_def zero_ok_foldl_ma_cross_day zero_ok_initial)

lemma zero_ok_close_remaining:
  "zero_ok ic st \<Longrightarrow>
     snd (close_remaining df lbl st) = ic \<and>
     (\<forall>t\<in>set (fst (close_remaining df lbl st)). shares t = 0 \<and> profit t = 0)"
  by (auto simp: zero_ok_def close_remaining_def make_trade_def split: option.splits)

lemma all_zero_replicate:
  "\<forall>t\<in>set ts. shares t = 0 \<and> profit t = 0 \<Longrightarrow>
     map shares ts = replicate (length ts) 0 \<and> map profit ts = replicate (length ts) 0"
  by (induction ts) simp_all

lemma ma_run_trades:
  "run_trades (backtest_ma_cross_strategy df0 req) = [] \<or>
   set (run_trades (backtest_ma_cross_strategy df0 req)) \<subseteq>
      set (fst (close_remaining (calculate_technical_indicators df0)
                 (\<lambda>p. MA_golden_backtest_end)
                 (ma_cross_loop req (calculate_technical_indicators df0))))"
proof (cases "df0 = [] \<or> length (calculate_technical_indicators df0) < 30")
  case True
  then show ?thesis
    by (auto simp: backtest_ma_cross_strategy_def Let_def run_trades_def empty_result_def)
next
  case False
  have "backtest_ma_cross_strategy df0 req =
          finish req (fst (close_remaining (calculate_technical_indicators df0)
                 (\<lambda>p. MA_golden_backtest_end)
                 (ma_cross_loop req (calculate_technical_indicators df0))))"
    using False by (simp add: backtest_ma_cross_strategy_def Let_def split_def)
  then show ?thesis
    using run_trades_finish_subset by simp
qed

text \<open>
  With a share count of zero a buy signal is refused while the capital is negative, and is
  ignored while a position is open.
\<close>

lemma sub_lot_buy_refused_on_negative_capital:
  "0 \<le> shares_per_trade req \<Longrightarrow> shares_per_trade req < 100 \<Longrightarrow>
   signal_type sg = ''buy'' \<Longrightarrow> position st = None \<Longrightarrow> capital st < 0 \<Longrightarrow>
     process_signal req d price st sg = st"
  by (simp add: process_signal_def buy_def Let_def)

lemma sub_lot_buy_ignored_while_open:
  "signal_type sg = ''buy'' \<Longrightarrow> position st \<noteq> None \<Longrightarrow>
     process_signal req d price st sg = st"
  by (auto simp: process_signal_def)

text \<open>
  C9. If \<open>shares_per_trade\<close> is at least 0 and less than the lot size 100, the share
  count rounds down to 0 and the cost of a purchase is 0.  A buy signal, or a golden cross,
  that occurs while no position is open and the capital is not negative is accepted: it
  opens a position with 0 shares and leaves the capital as it is.  Every trade of a run of
  the signal-based or the moving-average strategy then has 0 shares and a profit of 0, and
  the capital at the end of the run is the initial capital.
\<close>

theorem sub_lot_shares_trade_nothing:
  assumes "0 \<le> shares_per_trade req" and "shares_per_trade req < 100"
  shows
   "(signal_type sg = ''buy'' \<and> position st = None \<and> 0 \<le> capital st \<longrightarrow>
       process_signal req d price st sg =
         st\<lparr> position := Some \<lparr> pos_buy_date = d, pos_buy_price = price, pos_shares = 0,
                                pos_label = signal_reason sg \<rparr> \<rparr>) \<and>
    (cell_gt (ma5 r) (ma30 r) \<and> cell_le (ma5 pr) (ma30 pr) \<and> position mst = None
        \<and> 0 \<le> capital mst \<longrightarrow>
       ma_cross_trade req r pr mst =
         mst\<lparr> position := Some \<lparr> pos_buy_date = date r, pos_buy_price = close r,
                                 pos_shares = 0, pos_label = () \<rparr> \<rparr>) \<and>
    map shares (run_trades (backtest_signal_based_strategy df0 req))
      = replicate (length (run_trades (backtest_signal_based_strategy df0 req))) 0 \<and>
    map profit (run_trades (backtest_signal_based_strategy df0 req))
      = replicate (length (run_trades (backtest_signal_based_strategy df0 req))) 0 \<and>
    map shares (run_trades (backtest_ma_cross_strategy df0 req))
      = replicate (length (run_trades (backtest_ma_cross_strategy df0 req))) 0 \<and>
    map profit (run_trades (backtest_ma_cross_strategy df0 req))
      = replicate (length (run_trades (backtest_ma_cross_strategy df0 req))) 0 \<and>
    snd (close_remaining df lbl (signal_loop req sd df)) = initial_capital req \<and>
    snd (close_remaining df mlbl (ma_cross_loop req df)) = initial_capital req"
proof -
  note a = assms
  have lot: "(shares_per_trade req div 100) * 100 = 0" using a by simp
  have s1: "signal_type sg = ''buy'' \<and> position st = None \<and> 0 \<le> capital st \<longrightarrow>
       process_signal req d price st sg =
         st\<lparr> position := Some \<lparr> pos_buy_date = d, pos_buy_price = price, pos_shares = 0,
                                pos_label = signal_reason sg \<rparr> \<rparr>"
    by (simp add: process_signal_def buy_def lot Let_def)
  have s2: "cell_gt (ma5 r) (ma30 r) \<and> cell_le (ma5 pr) (ma30 pr) \<and> position mst = None
        \<and> 0 \<le> capital mst \<longrightarrow>
       ma_cross_trade req r pr mst =
         mst\<lparr> position := Some \<lparr> pos_buy_date = date r, pos_buy_price = close r,
                                 pos_shares = 0, pos_label = () \<rparr> \<rparr>"
    by (simp add: ma_cross_trade_def buy_def lot Let_def)
  have z1: "\<And>df sd lbl. snd (close_remaining df lbl (signal_loop req sd df)) = initial_capital req \<and>
     (\<forall>t\<in>set (fst (close_remaining df lbl (signal_loop req sd df))). shares t = 0 \<and> profit t = 0)"
    using zero_ok_close_remaining [OF zero_ok_signal_loop [OF a]] by blast
  have z2: "\<And>df lbl. snd (close_remaining df lbl (ma_cross_loop req df)) = initial_capital req \<and>
     (\<forall>t\<in>set (fst (close_remaining df lbl (ma_cross_loop req df))). shares t = 0 \<and> profit t = 0)"
    using zero_ok_close_remaining [OF zero_ok_ma_cross_loop [OF a]] by blast
  have r1: "\<forall>t\<in>set (run_trades (backtest_signal_based_strategy df0 req)).
              shares t = 0 \<and> profit t = 0"
    using signal_run_trades [of df0 req] z1 by (metis empty_iff empty_set subsetD)
  have r2: "\<forall>t\<in>set (run_trades (backtest_ma_cross_strategy df0 req)).
              shares t = 0 \<and> profit t = 0"
    using ma_run_trades [of df0 req] z2 by (metis empty_iff empty_set subsetD)
  show ?thesis
    using s1 s2 all_zero_replicate [OF r1] all_zero_replicate [OF r2] z1 z2 by simp
qed

theorem sub_lot_shares_counterexample:
  "pos_shares (the (position (process_signal (request_with_shares (- 1)) 1 50
      sample_flat_state sample_buy))) = - 100"
  by (simp add: process_signal_def buy_def request_with_shares_def default_request_def
      sample_flat_state_def sample_buy_def Let_def)


theorem sub_lot_shares_trade_nothing_witness:
  "0 \<le> shares_per_trade (request_with_shares 50) \<and>
   shares_per_trade (request_with_shares 50) < 100 \<and>
   signal_type sample_buy = ''buy'' \<and> position (sample_flat_state :: reason bt_state) = None \<and>
   0 \<le> capital (sample_flat_state :: reason bt_state) \<and>
   process_signal (request_with_shares 50) 1 50 sample_flat_state sample_buy =
     sample_flat_state\<lparr> position := Some \<lparr> pos_buy_date = 1, pos_buy_price = 50,
         pos_shares = 0, pos_label = signal_reason sample_buy \<rparr> \<rparr> \<and>
   cell_gt (ma5 row_above) (ma30 row_above) \<and> cell_le (ma5 row_below) (ma30 row_below) \<and>
   position (sample_flat_state :: unit bt_state) = None \<and>
   0 \<le> capital (sample_flat_state :: unit bt_state) \<and>
   ma_cross_trade (request_with_shares 50) row_above row_below sample_flat_state =
     sample_flat_state\<lparr> position := Some \<lparr> pos_buy_date = date row_above,
         pos_buy_price = close row_above, pos_shares = 0, pos_label = () \<rparr> \<rparr> \<and>
   snd (close_remaining sample_frame (\<lambda>p. Entry_reason_end (pos_label p))
          (signal_loop (request_with_shares 50) [sample_buy, sample_sell] sample_frame))
     = initial_capital (request_with_shares 50)"
proof -
  have h: "0 \<le> shares_per_trade (request_with_shares 50)"
    "shares_per_trade (request_with_shares 50) < 100"
    by (simp_all add: request_with_shares_def)
  have c: "signal_type sample_buy = ''buy''" "position (sample_flat_state :: reason bt_state) = None"
    "0 \<le> capital (sample_flat_state :: reason bt_state)"
    "cell_gt (ma5 row_above) (ma30 row_above)" "cell_le (ma5 row_below) (ma30 row_below)"
    "position (sample_flat_state :: unit bt_state) = None"
    "0 \<le> capital (sample_flat_state :: unit bt_state)"
    by (simp_all add: sample_buy_def sample_flat_state_def row_above_def row_below_def
        cell_gt_def cell_le_def)
  show ?thesis
    using h c
      sub_lot_shares_trade_nothing [OF h, of sample_buy sample_flat_state 1 50 row_above
        row_below sample_flat_state sample_frame sample_frame
        "\<lambda>p. Entry_reason_end (pos_label p)" "[sample_buy, sample_sell]"]
    by simp
qed


subsection \<open>The indicator engine does not touch its input\<close>

lemma setitem_last: "setitem (h @ [x]) (length h) upd col = h @ [assign upd col x]"
  by (simp add: setitem_def)

lemma getitem_last: "getitem (h @ [x]) (length h) f = map f x"
  by (simp add: getitem_def)

lemma calc_st_eq:
  "calculate_technical_indicators_st h r
     = (h @ [calculate_technical_indicators (h ! r)], length h)"
  unfolding calculate_technical_indicators_st_def calculate_technical_indicators_def df_copy_def
    Let_def split_conv setitem_last getitem_last
  by (rule refl)

text \<open>
  C8. \<open>calculate_technical_indicators\<close> leaves the frame that it is given, and every
  other frame of the store, unchanged: it writes to a new copy only.  The frame that it
  returns is a function of the contents of the input frame alone, so that a second run on
  the same input returns a frame with the same contents as the first.
\<close>

theorem indicator_engine_pure:
  "r < length h \<Longrightarrow>
     take (length h) (fst (calculate_technical_indicators_st h r)) = h \<and>
     fst (calculate_technical_indicators_st h r) ! r = h ! r \<and>
     fst (calculate_technical_indicators_st h r) ! snd (calculate_technical_indicators_st h r)
       = calculate_technical_indicators (h ! r) \<and>
     fst (calculate_technical_indicators_st (fst (calculate_technical_indicators_st h r)) r)
         ! snd (calculate_technical_indicators_st (fst (calculate_technical_indicators_st h r)) r)
       = fst (calculate_technical_indicators_st h r) ! snd (calculate_technical_indicators_st h r)"
  by (simp add: calc_st_eq nth_append)

theorem indicator_engine_pure_witness:
  "(0::nat) < length [sample_frame] \<and>
   take (length [sample_frame]) (fst (calculate_technical_indicators_st [sample_frame] 0))
     = [sample_frame] \<and>
   fst (calculate_technical_indicators_st [sample_frame] 0) ! 0 = [sample_frame] ! 0 \<and>
   fst (calculate_technical_indicators_st [sample_frame] 0)
       ! snd (calculate_technical_indicators_st [sample_frame] 0)
     = calculate_technical_indicators ([sample_frame] ! 0) \<and>
   fst (calculate_technical_indicators_st
          (fst (calculate_technical_indicators_st [sample_frame] 0)) 0)
       ! snd (calculate_technical_indicators_st
                (fst (calculate_technical_indicators_st [sample_frame] 0)) 0)
     = fst (calculate_technical_indicators_st [sample_frame] 0)
         ! snd (calculate_technical_indicators_st [sample_frame] 0)"
proof -
  have h: "(0::nat) < length [sample_frame]" by simp
  show ?thesis using h indicator_engine_pure [OF h] by blast
qed

subsection \<open>The capital at the end of a run\<close>

























end
